theory Spec2Isabelle
  imports Main "HOL-Library.Monad_Syntax"
begin

section \<open>Data model (types.ts)\<close>

text \<open>
  The document model of the roadmap board. Every interface of the source is a record and
  every string-literal union a datatype. A property written \<open>field?: T\<close> in the source is
  a field of type \<open>T option\<close>: \<open>None\<close> stands for a property that is missing or
  \<open>undefined\<close> (the source never tells the two apart: it reads optional properties
  through \<open>?.\<close>, \<open>||\<close> and truthiness only). JavaScript numbers are used as list
  positions only (\<open>order\<close>), and are integers here. Field names that several
  interfaces share (\<open>id\<close>, \<open>title\<close>, \<open>order\<close>, ...) carry the interface as a prefix.
\<close>

datatype Stage = Old | Recent | ShortTerm | LongTerm

datatype ItemType = Milestone | Blocker | Goal | Output

datatype BlockerStatus = Open | Mitigated | Resolved

datatype SubViewType = Tasks | Kanban | Roadmap

datatype Priority = Critical | High | Medium | Low

datatype LinkType = Gdoc | Slack | Github | Publication | Presentation | Data | Other

datatype ChangeType =
    Created | Completed | Archived | Unarchived | StatusChanged | StageChanged
  | LinkAdded | SubitemAdded | SubitemCompleted | MarkedWin | OutputAdded

record StatusTag =
  tag_id :: string
  tag_label :: string
  tag_color :: string

record SubStage =
  stage_id :: string
  stage_label :: string
  stage_order :: int

record SubSwimlane =
  subswim_id :: string
  subswim_name :: string
  subswim_color :: string
  subswim_order :: int

record ExternalLink =
  link_id :: string
  link_url :: string
  link_label :: string
  link_type :: "LinkType option"

record CheckIn =
  checkin_id :: string
  checkin_label :: string
  checkin_completed :: bool

record SubItem =
  sub_id :: string
  sub_title :: string
  sub_description :: "string option"
  sub_completed :: bool
  priority :: "Priority option"
  statusTagId :: "string option"
  subStageId :: "string option"
  subSwimlaneId :: "string option"
  sub_order :: int
  sub_links :: "ExternalLink list option"

record SubItemConfig =
  viewType :: SubViewType
  customStages :: "SubStage list option"
  customSwimlanes :: "SubSwimlane list option"
  customStatusTags :: "StatusTag list option"

record Metadata =
  fromValue :: "string option"
  toValue :: "string option"
  linkLabel :: "string option"
  subItemTitle :: "string option"

record ChangeLogEntry =
  entry_id :: string
  entry_type :: ChangeType
  timestamp :: string
  entry_description :: string
  metadata :: "Metadata option"

record RoadmapItem =
  item_id :: string
  item_type :: ItemType
  item_title :: string
  item_description :: "string option"
  stage :: Stage
  swimlaneId :: string
  reportedDate :: "string option"
  targetDate :: "string option"
  checkIns :: "CheckIn list option"
  blockerStatus :: "BlockerStatus option"
  dependsOn :: "string list option"
  enables :: "string list option"
  item_links :: "ExternalLink list option"
  outputIds :: "string list option"
  item_completed :: "bool option"
  item_order :: "int option"
  isWin :: "bool option"
  archived :: "bool option"
  subItems :: "SubItem list option"
  subItemConfig :: "SubItemConfig option"
  itemLastUpdated :: "string option"
  changeLog :: "ChangeLogEntry list option"

record Swimlane =
  swimlane_id :: string
  swimlane_name :: string
  swimlane_color :: string
  swimlane_order :: int

record RoadmapData =
  title :: string
  lastUpdated :: string
  swimlanes :: "Swimlane list"
  items :: "RoadmapItem list"

record FilterState =
  filter_swimlanes :: "string list"
  filter_stages :: "Stage list"
  filter_types :: "ItemType list"
  filter_blockerStatus :: "BlockerStatus list"
  showCompleted :: bool
  searchQuery :: string

text \<open>
  The store: the document (\<open>null\<close> until one is loaded) and the view state. Of the view
  state only the filters are read by the functions below; the other view fields (selection,
  hover, expanded item, ...) are written by the UI actions alone, which never touch
  \<open>data\<close>, and are left out.
\<close>

record RoadmapStore =
  data :: "RoadmapData option"
  filters :: FilterState

definition DEFAULT_STATUS_TAGS :: "StatusTag list" where
  "DEFAULT_STATUS_TAGS =
    [\<lparr>tag_id = ''not-started'', tag_label = ''Not Started'', tag_color = ''#6B7280''\<rparr>,
     \<lparr>tag_id = ''in-progress'', tag_label = ''In Progress'', tag_color = ''#3B82F6''\<rparr>,
     \<lparr>tag_id = ''blocked'', tag_label = ''Blocked'', tag_color = ''#EF4444''\<rparr>,
     \<lparr>tag_id = ''in-review'', tag_label = ''In Review'', tag_color = ''#F59E0B''\<rparr>,
     \<lparr>tag_id = ''done'', tag_label = ''Done'', tag_color = ''#10B981''\<rparr>]"

definition DEFAULT_SUB_STAGES :: "SubStage list" where
  "DEFAULT_SUB_STAGES =
    [\<lparr>stage_id = ''done'', stage_label = ''Done'', stage_order = 0\<rparr>,
     \<lparr>stage_id = ''in-progress'', stage_label = ''In Progress'', stage_order = 1\<rparr>,
     \<lparr>stage_id = ''up-next'', stage_label = ''Up Next'', stage_order = 2\<rparr>,
     \<lparr>stage_id = ''backlog'', stage_label = ''Backlog'', stage_order = 3\<rparr>]"

definition defaultFilters :: FilterState where
  "defaultFilters =
    \<lparr>filter_swimlanes = [], filter_stages = [], filter_types = [],
     filter_blockerStatus = [], showCompleted = True, searchQuery = ''''\<rparr>"

section \<open>JavaScript idioms\<close>

text \<open>\<open>xs || []\<close> on an optional array: an array, even an empty one, is truthy.\<close>

definition orEmpty :: "'a list option \<Rightarrow> 'a list" where
  "orEmpty xs = (case xs of None \<Rightarrow> [] | Some ys \<Rightarrow> ys)"

text \<open>Truthiness of an optional boolean: \<open>undefined\<close> and \<open>false\<close> are falsy.\<close>

definition truthy :: "bool option \<Rightarrow> bool" where
  "truthy b = (b = Some True)"

text \<open>\<open>xs.slice(-2)\<close>: the last two elements, or all of a shorter array.\<close>

definition sliceLast2 :: "'a list \<Rightarrow> 'a list" where
  "sliceLast2 xs = drop (length xs - 2) xs"

text \<open>
  A value read from a \<open>Partial\<close> update: the key may be missing (\<open>None\<close>), and when
  it is present the spread \<open>{...old, ...updates}\<close> takes its value.
\<close>

definition spread :: "'a \<Rightarrow> 'a option \<Rightarrow> 'a" where
  "spread old upd = (case upd of None \<Rightarrow> old | Some v \<Rightarrow> v)"

section \<open>Change log recorder (store.ts, addChangeLog)\<close>

text \<open>
  \<open>addChangeLog\<close> calls \<open>nanoid()\<close> and \<open>new Date().toISOString()\<close>; the two results
  are the argument \<open>fresh\<close> (identifier, timestamp).
\<close>

definition addChangeLog ::
  "RoadmapItem \<Rightarrow> ChangeType \<Rightarrow> string \<Rightarrow> Metadata option \<Rightarrow> string \<times> string \<Rightarrow> RoadmapItem" where
  "addChangeLog item ty description meta fresh =
    (let entry = \<lparr>entry_id = fst fresh, entry_type = ty, timestamp = snd fresh,
                    entry_description = description, metadata = meta\<rparr>;
         existingLog = orEmpty (changeLog item);
         newLog = sliceLast2 (existingLog @ [entry])
     in item\<lparr>changeLog := Some newLog\<rparr>)"

section \<open>Partial updates\<close>

text \<open>
  \<open>Partial<T>\<close>: every property of \<open>T\<close> may be missing. For a property that is
  optional in \<open>T\<close> the update may also carry the key with the value \<open>undefined\<close>
  (the detail panel clears a target date with \<open>{targetDate: undefined}\<close>), hence the
  nested option: \<open>None\<close> is a missing key, \<open>Some None\<close> the key set to
  \<open>undefined\<close>. A property that \<open>T\<close> requires is either missing or given a value.
\<close>

record PartialSwimlane =
  p_swimlane_id :: "string option"
  p_swimlane_name :: "string option"
  p_swimlane_color :: "string option"
  p_swimlane_order :: "int option"

record PartialSubStage =
  p_stage_id :: "string option"
  p_stage_label :: "string option"
  p_stage_order :: "int option"

record PartialSubSwimlane =
  p_subswim_id :: "string option"
  p_subswim_name :: "string option"
  p_subswim_color :: "string option"
  p_subswim_order :: "int option"

record PartialSubItem =
  p_sub_id :: "string option"
  p_sub_title :: "string option"
  p_sub_description :: "string option option"
  p_sub_completed :: "bool option"
  p_priority :: "Priority option option"
  p_statusTagId :: "string option option"
  p_subStageId :: "string option option"
  p_subSwimlaneId :: "string option option"
  p_sub_order :: "int option"
  p_sub_links :: "ExternalLink list option option"

record PartialItem =
  p_item_id :: "string option"
  p_item_type :: "ItemType option"
  p_item_title :: "string option"
  p_item_description :: "string option option"
  p_stage :: "Stage option"
  p_swimlaneId :: "string option"
  p_reportedDate :: "string option option"
  p_targetDate :: "string option option"
  p_checkIns :: "CheckIn list option option"
  p_blockerStatus :: "BlockerStatus option option"
  p_dependsOn :: "string list option option"
  p_enables :: "string list option option"
  p_item_links :: "ExternalLink list option option"
  p_outputIds :: "string list option option"
  p_item_completed :: "bool option option"
  p_item_order :: "int option option"
  p_isWin :: "bool option option"
  p_archived :: "bool option option"
  p_subItems :: "SubItem list option option"
  p_subItemConfig :: "SubItemConfig option option"
  p_itemLastUpdated :: "string option option"
  p_changeLog :: "ChangeLogEntry list option option"

text \<open>The spread \<open>{...s, ...updates}\<close>, one definition for each updated interface.\<close>

definition spreadSwimlane :: "Swimlane \<Rightarrow> PartialSwimlane \<Rightarrow> Swimlane" where
  "spreadSwimlane s u =
    \<lparr>swimlane_id = spread (swimlane_id s) (p_swimlane_id u),
     swimlane_name = spread (swimlane_name s) (p_swimlane_name u),
     swimlane_color = spread (swimlane_color s) (p_swimlane_color u),
     swimlane_order = spread (swimlane_order s) (p_swimlane_order u)\<rparr>"

definition spreadSubStage :: "SubStage \<Rightarrow> PartialSubStage \<Rightarrow> SubStage" where
  "spreadSubStage s u =
    \<lparr>stage_id = spread (stage_id s) (p_stage_id u),
     stage_label = spread (stage_label s) (p_stage_label u),
     stage_order = spread (stage_order s) (p_stage_order u)\<rparr>"

definition spreadSubSwimlane :: "SubSwimlane \<Rightarrow> PartialSubSwimlane \<Rightarrow> SubSwimlane" where
  "spreadSubSwimlane s u =
    \<lparr>subswim_id = spread (subswim_id s) (p_subswim_id u),
     subswim_name = spread (subswim_name s) (p_subswim_name u),
     subswim_color = spread (subswim_color s) (p_subswim_color u),
     subswim_order = spread (subswim_order s) (p_subswim_order u)\<rparr>"

definition spreadSubItem :: "SubItem \<Rightarrow> PartialSubItem \<Rightarrow> SubItem" where
  "spreadSubItem s u =
    \<lparr>sub_id = spread (sub_id s) (p_sub_id u),
     sub_title = spread (sub_title s) (p_sub_title u),
     sub_description = spread (sub_description s) (p_sub_description u),
     sub_completed = spread (sub_completed s) (p_sub_completed u),
     priority = spread (priority s) (p_priority u),
     statusTagId = spread (statusTagId s) (p_statusTagId u),
     subStageId = spread (subStageId s) (p_subStageId u),
     subSwimlaneId = spread (subSwimlaneId s) (p_subSwimlaneId u),
     sub_order = spread (sub_order s) (p_sub_order u),
     sub_links = spread (sub_links s) (p_sub_links u)\<rparr>"

definition spreadItem :: "RoadmapItem \<Rightarrow> PartialItem \<Rightarrow> RoadmapItem" where
  "spreadItem i u =
    \<lparr>item_id = spread (item_id i) (p_item_id u),
     item_type = spread (item_type i) (p_item_type u),
     item_title = spread (item_title i) (p_item_title u),
     item_description = spread (item_description i) (p_item_description u),
     stage = spread (stage i) (p_stage u),
     swimlaneId = spread (swimlaneId i) (p_swimlaneId u),
     reportedDate = spread (reportedDate i) (p_reportedDate u),
     targetDate = spread (targetDate i) (p_targetDate u),
     checkIns = spread (checkIns i) (p_checkIns u),
     blockerStatus = spread (blockerStatus i) (p_blockerStatus u),
     dependsOn = spread (dependsOn i) (p_dependsOn u),
     enables = spread (enables i) (p_enables u),
     item_links = spread (item_links i) (p_item_links u),
     outputIds = spread (outputIds i) (p_outputIds u),
     item_completed = spread (item_completed i) (p_item_completed u),
     item_order = spread (item_order i) (p_item_order u),
     isWin = spread (isWin i) (p_isWin u),
     archived = spread (archived i) (p_archived u),
     subItems = spread (subItems i) (p_subItems u),
     subItemConfig = spread (subItemConfig i) (p_subItemConfig u),
     itemLastUpdated = spread (itemLastUpdated i) (p_itemLastUpdated u),
     changeLog = spread (changeLog i) (p_changeLog u)\<rparr>"

text \<open>
  The value \<open>updates.field\<close> of an optional property: \<open>undefined\<close> when the key is
  missing or set to \<open>undefined\<close>.
\<close>

definition readKey :: "'a option option \<Rightarrow> 'a option" where
  "readKey k = (case k of None \<Rightarrow> None | Some v \<Rightarrow> v)"

section \<open>Document store (store.ts): document and swimlane actions\<close>

text \<open>
  Every action reads the store with \<open>get()\<close> and, when a document is there, replaces it
  with \<open>set({data: ...})\<close>; with no document it does nothing. The results of
  \<open>new Date().toISOString()\<close> and \<open>nanoid()\<close> are arguments (\<open>now\<close>, \<open>nid\<close>, and
  one pair \<open>(nanoid, timestamp)\<close> for each call of \<open>addChangeLog\<close>).
\<close>

definition whenData :: "(RoadmapData \<Rightarrow> RoadmapData) \<Rightarrow> RoadmapStore \<Rightarrow> RoadmapStore" where
  "whenData f st = (case data st of None \<Rightarrow> st | Some d \<Rightarrow> st\<lparr>data := Some (f d)\<rparr>)"

definition loadData :: "RoadmapData \<Rightarrow> string \<Rightarrow> RoadmapStore \<Rightarrow> RoadmapStore" where
  "loadData d now st = st\<lparr>data := Some (d\<lparr>lastUpdated := now\<rparr>)\<rparr>"

definition setTitle :: "string \<Rightarrow> string \<Rightarrow> RoadmapStore \<Rightarrow> RoadmapStore" where
  "setTitle t now = whenData (\<lambda>d. d\<lparr>title := t, lastUpdated := now\<rparr>)"

definition addSwimlane ::
  "string \<Rightarrow> string option \<Rightarrow> string \<Rightarrow> string \<Rightarrow> RoadmapStore \<Rightarrow> RoadmapStore" where
  "addSwimlane name color nid now = whenData (\<lambda>d.
    (let newSwimlane =
           \<lparr>swimlane_id = nid, swimlane_name = name,
            swimlane_color = (case color of None \<Rightarrow> ''#3B82F6'' | Some c \<Rightarrow> c),
            swimlane_order = int (length (swimlanes d))\<rparr>
     in d\<lparr>swimlanes := swimlanes d @ [newSwimlane], lastUpdated := now\<rparr>))"

definition updateSwimlane ::
  "string \<Rightarrow> PartialSwimlane \<Rightarrow> string \<Rightarrow> RoadmapStore \<Rightarrow> RoadmapStore" where
  "updateSwimlane sid updates now = whenData (\<lambda>d.
    d\<lparr>swimlanes := map (\<lambda>s. if swimlane_id s = sid then spreadSwimlane s updates else s)
                          (swimlanes d),
      lastUpdated := now\<rparr>)"

definition deleteSwimlane :: "string \<Rightarrow> string \<Rightarrow> RoadmapStore \<Rightarrow> RoadmapStore" where
  "deleteSwimlane sid now = whenData (\<lambda>d.
    d\<lparr>swimlanes := filter (\<lambda>s. swimlane_id s \<noteq> sid) (swimlanes d),
      items := filter (\<lambda>i. swimlaneId i \<noteq> sid) (items d),
      lastUpdated := now\<rparr>)"

text \<open>
  \<open>ids.map((id, index) => found ? {...found, order: index} : null).filter(Boolean)\<close>
\<close>

definition reorderSwimlanes :: "string list \<Rightarrow> string \<Rightarrow> RoadmapStore \<Rightarrow> RoadmapStore" where
  "reorderSwimlanes swimlaneIds now = whenData (\<lambda>d.
    (let reordered =
           List.map_filter
             (\<lambda>(index, sid).
                map_option (\<lambda>s. s\<lparr>swimlane_order := int index\<rparr>)
                  (find (\<lambda>s. swimlane_id s = sid) (swimlanes d)))
             (enumerate 0 swimlaneIds)
     in d\<lparr>swimlanes := reordered, lastUpdated := now\<rparr>))"

section \<open>Document store: item actions\<close>

text \<open>
  \<open>addItem\<close> takes an item without \<open>id\<close>: the \<open>item_id\<close> of the argument is not read.
  It returns the new identifier, also when no document is loaded.
\<close>

definition addItem ::
  "RoadmapItem \<Rightarrow> string \<Rightarrow> string \<Rightarrow> string \<times> string \<Rightarrow> RoadmapStore \<Rightarrow> string \<times> RoadmapStore" where
  "addItem item nid now fresh st =
    (nid, whenData (\<lambda>d.
       (let newItem = item\<lparr>item_id := nid, itemLastUpdated := Some now\<rparr>;
            newItem = addChangeLog newItem Created ''Item created'' None fresh
        in d\<lparr>items := items d @ [newItem], lastUpdated := now\<rparr>)) st)"

definition stageLabels :: "Stage \<Rightarrow> string" where
  "stageLabels s = (case s of Old \<Rightarrow> ''Past'' | Recent \<Rightarrow> ''Recent''
                     | ShortTerm \<Rightarrow> ''Short-term'' | LongTerm \<Rightarrow> ''Long-term'')"

text \<open>The string a \<open>BlockerStatus\<close> value is in the source.\<close>

definition blockerStatusText :: "BlockerStatus \<Rightarrow> string" where
  "blockerStatusText b = (case b of Open \<Rightarrow> ''open'' | Mitigated \<Rightarrow> ''mitigated''
                           | Resolved \<Rightarrow> ''resolved'')"

text \<open>The body of the \<open>map\<close> callback of \<open>updateItem\<close> for the item that matches.\<close>

definition updateItemBody ::
  "RoadmapItem \<Rightarrow> PartialItem \<Rightarrow> string \<Rightarrow> string \<times> string \<Rightarrow> string \<times> string \<Rightarrow>
   string \<times> string \<Rightarrow> string \<times> string \<Rightarrow> RoadmapItem" where
  "updateItemBody i updates now f1 f2 f3 f4 =
    (let updated = (spreadItem i updates)\<lparr>itemLastUpdated := Some now\<rparr>;
         updated =
           (case readKey (p_item_completed updates) of
              None \<Rightarrow> updated
            | Some c \<Rightarrow>
                if Some c \<noteq> item_completed i \<and> c
                then addChangeLog updated Completed ''Marked as completed'' None f1
                else updated);
         updated =
           (if readKey (p_isWin updates) = Some True \<and> \<not> truthy (isWin i)
            then addChangeLog updated MarkedWin ''Highlighted as a win'' None f2
            else updated);
         updated =
           (case p_stage updates of
              None \<Rightarrow> updated
            | Some s \<Rightarrow>
                if s \<noteq> stage i
                then addChangeLog updated StageChanged (''Moved to '' @ stageLabels s)
                       (Some \<lparr>fromValue = Some (stageLabels (stage i)),
                              toValue = Some (stageLabels s),
                              linkLabel = None, subItemTitle = None\<rparr>) f3
                else updated);
         updated =
           (case readKey (p_blockerStatus updates) of
              None \<Rightarrow> updated
            | Some b \<Rightarrow>
                if Some b \<noteq> blockerStatus i
                then addChangeLog updated StatusChanged
                       (''Status changed to '' @ blockerStatusText b)
                       (Some \<lparr>fromValue = map_option blockerStatusText (blockerStatus i),
                              toValue = Some (blockerStatusText b),
                              linkLabel = None, subItemTitle = None\<rparr>) f4
                else updated)
     in updated)"

definition updateItem ::
  "string \<Rightarrow> PartialItem \<Rightarrow> string \<Rightarrow> string \<times> string \<Rightarrow> string \<times> string \<Rightarrow>
   string \<times> string \<Rightarrow> string \<times> string \<Rightarrow> RoadmapStore \<Rightarrow> RoadmapStore" where
  "updateItem iid updates now f1 f2 f3 f4 = whenData (\<lambda>d.
    d\<lparr>items := map (\<lambda>i. if item_id i \<noteq> iid then i
                          else updateItemBody i updates now f1 f2 f3 f4) (items d),
      lastUpdated := now\<rparr>)"

definition deleteItem :: "string \<Rightarrow> string \<Rightarrow> RoadmapStore \<Rightarrow> RoadmapStore" where
  "deleteItem iid now = whenData (\<lambda>d.
    (let updatedItems =
           map (\<lambda>i. i\<lparr>dependsOn := map_option (filter (\<lambda>x. x \<noteq> iid)) (dependsOn i),
                      enables := map_option (filter (\<lambda>e. e \<noteq> iid)) (enables i),
                      outputIds := map_option (filter (\<lambda>x. x \<noteq> iid)) (outputIds i)\<rparr>)
               (filter (\<lambda>i. item_id i \<noteq> iid) (items d))
     in d\<lparr>items := updatedItems, lastUpdated := now\<rparr>))"

definition archiveItem :: "string \<Rightarrow> string \<Rightarrow> string \<times> string \<Rightarrow> RoadmapStore \<Rightarrow> RoadmapStore" where
  "archiveItem iid now fresh = whenData (\<lambda>d.
    d\<lparr>items := map (\<lambda>i. if item_id i \<noteq> iid then i
                          else (let updated = i\<lparr>archived := Some True, item_completed := Some True,
                                                 itemLastUpdated := Some now\<rparr>
                                in addChangeLog updated Archived ''Archived'' None fresh))
                      (items d),
      lastUpdated := now\<rparr>)"

definition unarchiveItem :: "string \<Rightarrow> string \<Rightarrow> string \<times> string \<Rightarrow> RoadmapStore \<Rightarrow> RoadmapStore" where
  "unarchiveItem iid now fresh = whenData (\<lambda>d.
    d\<lparr>items := map (\<lambda>i. if item_id i \<noteq> iid then i
                          else (let updated = i\<lparr>archived := Some False, itemLastUpdated := Some now\<rparr>
                                in addChangeLog updated Unarchived ''Restored from archive'' None fresh))
                      (items d),
      lastUpdated := now\<rparr>)"

section \<open>Document store: dependencies, links, check-ins\<close>

text \<open>
  The callback of \<open>addDependency\<close> returns from the first branch that changes the item;
  an item that is \<open>fromId\<close> and already depends on \<open>toId\<close> falls through to the second
  test.
\<close>

definition addDependencyBody :: "string \<Rightarrow> string \<Rightarrow> RoadmapItem \<Rightarrow> RoadmapItem" where
  "addDependencyBody fromId toId i =
    (if item_id i = fromId \<and> toId \<notin> set (orEmpty (dependsOn i))
     then i\<lparr>dependsOn := Some (orEmpty (dependsOn i) @ [toId])\<rparr>
     else if item_id i = toId \<and> fromId \<notin> set (orEmpty (enables i))
     then i\<lparr>enables := Some (orEmpty (enables i) @ [fromId])\<rparr>
     else i)"

definition addDependency :: "string \<Rightarrow> string \<Rightarrow> string \<Rightarrow> RoadmapStore \<Rightarrow> RoadmapStore" where
  "addDependency fromId toId now = whenData (\<lambda>d.
    d\<lparr>items := map (addDependencyBody fromId toId) (items d), lastUpdated := now\<rparr>)"

definition removeDependencyBody :: "string \<Rightarrow> string \<Rightarrow> RoadmapItem \<Rightarrow> RoadmapItem" where
  "removeDependencyBody fromId toId i =
    (if item_id i = fromId
     then i\<lparr>dependsOn := map_option (filter (\<lambda>x. x \<noteq> toId)) (dependsOn i)\<rparr>
     else if item_id i = toId
     then i\<lparr>enables := map_option (filter (\<lambda>e. e \<noteq> fromId)) (enables i)\<rparr>
     else i)"

definition removeDependency :: "string \<Rightarrow> string \<Rightarrow> string \<Rightarrow> RoadmapStore \<Rightarrow> RoadmapStore" where
  "removeDependency fromId toId now = whenData (\<lambda>d.
    d\<lparr>items := map (removeDependencyBody fromId toId) (items d), lastUpdated := now\<rparr>)"

text \<open>\<open>addLink\<close> takes a link without \<open>id\<close>: the \<open>link_id\<close> of the argument is not read.\<close>

definition addLink ::
  "string \<Rightarrow> ExternalLink \<Rightarrow> string \<Rightarrow> string \<Rightarrow> string \<times> string \<Rightarrow> RoadmapStore \<Rightarrow> RoadmapStore" where
  "addLink itemId link nid now fresh = whenData (\<lambda>d.
    (let newLink = link\<lparr>link_id := nid\<rparr>;
         isOutput = (link_type link = Some Publication \<or> link_type link = Some Presentation
                     \<or> link_type link = Some Data)
     in d\<lparr>items :=
            map (\<lambda>i. if item_id i \<noteq> itemId then i
                      else (let updated = i\<lparr>item_links := Some (orEmpty (item_links i) @ [newLink]),
                                             itemLastUpdated := Some now\<rparr>
                            in if isOutput
                               then addChangeLog updated OutputAdded
                                      (''Output added: '' @ link_label link)
                                      (Some \<lparr>fromValue = None, toValue = None,
                                             linkLabel = Some (link_label link),
                                             subItemTitle = None\<rparr>) fresh
                               else addChangeLog updated LinkAdded
                                      (''Link added: '' @ link_label link)
                                      (Some \<lparr>fromValue = None, toValue = None,
                                             linkLabel = Some (link_label link),
                                             subItemTitle = None\<rparr>) fresh))
                (items d),
          lastUpdated := now\<rparr>))"

definition removeLink :: "string \<Rightarrow> string \<Rightarrow> string \<Rightarrow> RoadmapStore \<Rightarrow> RoadmapStore" where
  "removeLink itemId linkId now = whenData (\<lambda>d.
    d\<lparr>items := map (\<lambda>i. if item_id i = itemId
                          then i\<lparr>item_links := map_option (filter (\<lambda>l. link_id l \<noteq> linkId))
                                                   (item_links i)\<rparr>
                          else i) (items d),
      lastUpdated := now\<rparr>)"

definition addCheckIn :: "string \<Rightarrow> string \<Rightarrow> string \<Rightarrow> string \<Rightarrow> RoadmapStore \<Rightarrow> RoadmapStore" where
  "addCheckIn itemId label nid now = whenData (\<lambda>d.
    (let newCheckIn = \<lparr>checkin_id = nid, checkin_label = label, checkin_completed = False\<rparr>
     in d\<lparr>items := map (\<lambda>i. if item_id i = itemId
                             then i\<lparr>checkIns := Some (orEmpty (checkIns i) @ [newCheckIn])\<rparr>
                             else i) (items d),
          lastUpdated := now\<rparr>))"

definition toggleCheckIn :: "string \<Rightarrow> string \<Rightarrow> string \<Rightarrow> RoadmapStore \<Rightarrow> RoadmapStore" where
  "toggleCheckIn itemId checkInId now = whenData (\<lambda>d.
    d\<lparr>items := map (\<lambda>i. if item_id i = itemId
                          then i\<lparr>checkIns :=
                                   map_option
                                     (map (\<lambda>c. if checkin_id c = checkInId
                                                then c\<lparr>checkin_completed := \<not> checkin_completed c\<rparr>
                                                else c))
                                     (checkIns i)\<rparr>
                          else i) (items d),
      lastUpdated := now\<rparr>)"

definition removeCheckIn :: "string \<Rightarrow> string \<Rightarrow> string \<Rightarrow> RoadmapStore \<Rightarrow> RoadmapStore" where
  "removeCheckIn itemId checkInId now = whenData (\<lambda>d.
    d\<lparr>items := map (\<lambda>i. if item_id i = itemId
                          then i\<lparr>checkIns := map_option (filter (\<lambda>c. checkin_id c \<noteq> checkInId))
                                                 (checkIns i)\<rparr>
                          else i) (items d),
      lastUpdated := now\<rparr>)"

section \<open>Document store: sub-item actions\<close>

text \<open>The configuration an item gets when it has none, with the view type of the caller.\<close>

definition defaultSubItemConfig :: "SubViewType \<Rightarrow> SubItemConfig" where
  "defaultSubItemConfig v =
    \<lparr>viewType = v, customStages = Some DEFAULT_SUB_STAGES, customSwimlanes = None,
     customStatusTags = Some DEFAULT_STATUS_TAGS\<rparr>"

definition addSubItem ::
  "string \<Rightarrow> string \<Rightarrow> string \<Rightarrow> string \<Rightarrow> string \<times> string \<Rightarrow> RoadmapStore \<Rightarrow> RoadmapStore" where
  "addSubItem itemId ttl nid now fresh = whenData (\<lambda>d.
    (let item = find (\<lambda>i. item_id i = itemId) (items d);
         existingSubItems = (case item of None \<Rightarrow> [] | Some i \<Rightarrow> orEmpty (subItems i));
         newSubItem =
           \<lparr>sub_id = nid, sub_title = ttl, sub_description = None, sub_completed = False,
            priority = None, statusTagId = None, subStageId = Some ''backlog'',
            subSwimlaneId = None, sub_order = int (length existingSubItems),
            sub_links = None\<rparr>;
         config =
           (case (case item of None \<Rightarrow> None | Some i \<Rightarrow> subItemConfig i) of
              None \<Rightarrow> defaultSubItemConfig Tasks
            | Some c \<Rightarrow> c)
     in d\<lparr>items :=
            map (\<lambda>i. if item_id i \<noteq> itemId then i
                      else (let updated = i\<lparr>subItems := Some (existingSubItems @ [newSubItem]),
                                             subItemConfig := Some config,
                                             itemLastUpdated := Some now\<rparr>
                            in addChangeLog updated SubitemAdded (''Sub-item added: '' @ ttl)
                                 (Some \<lparr>fromValue = None, toValue = None, linkLabel = None,
                                        subItemTitle = Some ttl\<rparr>) fresh))
                (items d),
          lastUpdated := now\<rparr>))"

definition updateSubItem ::
  "string \<Rightarrow> string \<Rightarrow> PartialSubItem \<Rightarrow> string \<Rightarrow> RoadmapStore \<Rightarrow> RoadmapStore" where
  "updateSubItem itemId subItemId updates now = whenData (\<lambda>d.
    d\<lparr>items := map (\<lambda>i. if item_id i = itemId
                          then i\<lparr>subItems :=
                                   map_option
                                     (map (\<lambda>s. if sub_id s = subItemId
                                                then spreadSubItem s updates else s))
                                     (subItems i)\<rparr>
                          else i) (items d),
      lastUpdated := now\<rparr>)"

definition deleteSubItem :: "string \<Rightarrow> string \<Rightarrow> string \<Rightarrow> RoadmapStore \<Rightarrow> RoadmapStore" where
  "deleteSubItem itemId subItemId now = whenData (\<lambda>d.
    d\<lparr>items := map (\<lambda>i. if item_id i = itemId
                          then i\<lparr>subItems := map_option (filter (\<lambda>s. sub_id s \<noteq> subItemId))
                                                 (subItems i)\<rparr>
                          else i) (items d),
      lastUpdated := now\<rparr>)"

definition toggleSubItem ::
  "string \<Rightarrow> string \<Rightarrow> string \<Rightarrow> string \<times> string \<Rightarrow> RoadmapStore \<Rightarrow> RoadmapStore" where
  "toggleSubItem itemId subItemId now fresh = whenData (\<lambda>d.
    d\<lparr>items :=
        map (\<lambda>i. if item_id i \<noteq> itemId then i
                  else (let subItem = (case subItems i of None \<Rightarrow> None
                                       | Some ss \<Rightarrow> find (\<lambda>s. sub_id s = subItemId) ss);
                            newCompleted = (case subItem of None \<Rightarrow> False
                                            | Some s \<Rightarrow> \<not> sub_completed s);
                            updated =
                              i\<lparr>subItems :=
                                   map_option
                                     (map (\<lambda>s. if sub_id s = subItemId
                                                then s\<lparr>sub_completed := newCompleted\<rparr> else s))
                                     (subItems i),
                                itemLastUpdated := Some now\<rparr>
                        in case subItem of
                             None \<Rightarrow> updated
                           | Some s \<Rightarrow>
                               if newCompleted
                               then addChangeLog updated SubitemCompleted
                                      (''Sub-item completed: '' @ sub_title s)
                                      (Some \<lparr>fromValue = None, toValue = None, linkLabel = None,
                                             subItemTitle = Some (sub_title s)\<rparr>) fresh
                               else updated))
            (items d),
      lastUpdated := now\<rparr>)"

definition reorderSubItems ::
  "string \<Rightarrow> string list \<Rightarrow> string \<Rightarrow> RoadmapStore \<Rightarrow> RoadmapStore" where
  "reorderSubItems itemId subItemIds now = whenData (\<lambda>d.
    d\<lparr>items :=
        map (\<lambda>i. if item_id i \<noteq> itemId then i
                  else (let reordered =
                              List.map_filter
                                (\<lambda>(index, sid).
                                   map_option (\<lambda>s. s\<lparr>sub_order := int index\<rparr>)
                                     (case subItems i of None \<Rightarrow> None
                                      | Some ss \<Rightarrow> find (\<lambda>s. sub_id s = sid) ss))
                                (enumerate 0 subItemIds)
                        in i\<lparr>subItems := Some reordered\<rparr>))
            (items d),
      lastUpdated := now\<rparr>)"

section \<open>Document store: sub-item configuration actions\<close>

definition setSubViewType :: "string \<Rightarrow> SubViewType \<Rightarrow> string \<Rightarrow> RoadmapStore \<Rightarrow> RoadmapStore" where
  "setSubViewType itemId v now = whenData (\<lambda>d.
    d\<lparr>items :=
        map (\<lambda>i. if item_id i \<noteq> itemId then i
                  else (let config = (case subItemConfig i of None \<Rightarrow> defaultSubItemConfig v
                                      | Some c \<Rightarrow> c)
                        in i\<lparr>subItemConfig := Some (config\<lparr>viewType := v\<rparr>)\<rparr>))
            (items d),
      lastUpdated := now\<rparr>)"

definition addSubStage :: "string \<Rightarrow> string \<Rightarrow> string \<Rightarrow> string \<Rightarrow> RoadmapStore \<Rightarrow> RoadmapStore" where
  "addSubStage itemId label nid now = whenData (\<lambda>d.
    d\<lparr>items :=
        map (\<lambda>i. if item_id i \<noteq> itemId then i
                  else (let config = (case subItemConfig i of None \<Rightarrow> defaultSubItemConfig Tasks
                                      | Some c \<Rightarrow> c);
                            stages = orEmpty (customStages config);
                            newStage = \<lparr>stage_id = nid, stage_label = label,
                                        stage_order = int (length stages)\<rparr>
                        in i\<lparr>subItemConfig :=
                               Some (config\<lparr>customStages := Some (stages @ [newStage])\<rparr>)\<rparr>))
            (items d),
      lastUpdated := now\<rparr>)"

text \<open>
  \<open>i.subItemConfig?.customStages\<close>: \<open>undefined\<close> when the item has no configuration
  or the configuration has no stage list.
\<close>

definition customStagesOf :: "RoadmapItem \<Rightarrow> SubStage list option" where
  "customStagesOf i = (case subItemConfig i of None \<Rightarrow> None | Some c \<Rightarrow> customStages c)"

definition customSwimlanesOf :: "RoadmapItem \<Rightarrow> SubSwimlane list option" where
  "customSwimlanesOf i = (case subItemConfig i of None \<Rightarrow> None | Some c \<Rightarrow> customSwimlanes c)"

definition updateSubStage ::
  "string \<Rightarrow> string \<Rightarrow> PartialSubStage \<Rightarrow> string \<Rightarrow> RoadmapStore \<Rightarrow> RoadmapStore" where
  "updateSubStage itemId stageId updates now = whenData (\<lambda>d.
    d\<lparr>items :=
        map (\<lambda>i. case subItemConfig i of
                    None \<Rightarrow> i
                  | Some config \<Rightarrow>
                      (case customStages config of
                         None \<Rightarrow> i
                       | Some stages \<Rightarrow>
                           if item_id i \<noteq> itemId then i
                           else i\<lparr>subItemConfig :=
                                    Some (config\<lparr>customStages :=
                                      Some (map (\<lambda>s. if stage_id s = stageId
                                                      then spreadSubStage s updates else s)
                                              stages)\<rparr>)\<rparr>))
            (items d),
      lastUpdated := now\<rparr>)"

text \<open>
  \<open>i.subItemConfig?.customStages?.[0]?.id\<close> is read from the item as it is before the
  deletion: the first element of the stage array, or \<open>undefined\<close> for an empty array.
\<close>

definition firstStageId :: "RoadmapItem \<Rightarrow> string option" where
  "firstStageId i = (case customStagesOf i of None \<Rightarrow> None | Some [] \<Rightarrow> None
                      | Some (s # rest) \<Rightarrow> Some (stage_id s))"

definition deleteSubStage :: "string \<Rightarrow> string \<Rightarrow> string \<Rightarrow> RoadmapStore \<Rightarrow> RoadmapStore" where
  "deleteSubStage itemId stageId now = whenData (\<lambda>d.
    d\<lparr>items :=
        map (\<lambda>i. case subItemConfig i of
                    None \<Rightarrow> i
                  | Some config \<Rightarrow>
                      (case customStages config of
                         None \<Rightarrow> i
                       | Some stages \<Rightarrow>
                           if item_id i \<noteq> itemId then i
                           else i\<lparr>subItemConfig :=
                                    Some (config\<lparr>customStages :=
                                      Some (filter (\<lambda>s. stage_id s \<noteq> stageId) stages)\<rparr>),
                                  subItems :=
                                    map_option
                                      (map (\<lambda>sub. if subStageId sub = Some stageId
                                                    then sub\<lparr>subStageId := firstStageId i\<rparr>
                                                    else sub))
                                      (subItems i)\<rparr>))
            (items d),
      lastUpdated := now\<rparr>)"

definition reorderSubStages ::
  "string \<Rightarrow> string list \<Rightarrow> string \<Rightarrow> RoadmapStore \<Rightarrow> RoadmapStore" where
  "reorderSubStages itemId stageIds now = whenData (\<lambda>d.
    d\<lparr>items :=
        map (\<lambda>i. case subItemConfig i of
                    None \<Rightarrow> i
                  | Some config \<Rightarrow>
                      (case customStages config of
                         None \<Rightarrow> i
                       | Some stages \<Rightarrow>
                           if item_id i \<noteq> itemId then i
                           else (let reordered =
                                       List.map_filter
                                         (\<lambda>(index, sid).
                                            map_option (\<lambda>s. s\<lparr>stage_order := int index\<rparr>)
                                              (find (\<lambda>s. stage_id s = sid) stages))
                                         (enumerate 0 stageIds)
                                 in i\<lparr>subItemConfig :=
                                        Some (config\<lparr>customStages := Some reordered\<rparr>)\<rparr>)))
            (items d),
      lastUpdated := now\<rparr>)"

definition addSubSwimlane ::
  "string \<Rightarrow> string \<Rightarrow> string option \<Rightarrow> string \<Rightarrow> string \<Rightarrow> RoadmapStore \<Rightarrow> RoadmapStore" where
  "addSubSwimlane itemId name color nid now = whenData (\<lambda>d.
    d\<lparr>items :=
        map (\<lambda>i. if item_id i \<noteq> itemId then i
                  else (let config = (case subItemConfig i of None \<Rightarrow> defaultSubItemConfig Roadmap
                                      | Some c \<Rightarrow> c);
                            lanes = orEmpty (customSwimlanes config);
                            newSwimlane =
                              \<lparr>subswim_id = nid, subswim_name = name,
                               subswim_color = (case color of None \<Rightarrow> ''#6366F1'' | Some c \<Rightarrow> c),
                               subswim_order = int (length lanes)\<rparr>
                        in i\<lparr>subItemConfig :=
                               Some (config\<lparr>customSwimlanes := Some (lanes @ [newSwimlane])\<rparr>)\<rparr>))
            (items d),
      lastUpdated := now\<rparr>)"

definition updateSubSwimlane ::
  "string \<Rightarrow> string \<Rightarrow> PartialSubSwimlane \<Rightarrow> string \<Rightarrow> RoadmapStore \<Rightarrow> RoadmapStore" where
  "updateSubSwimlane itemId laneId updates now = whenData (\<lambda>d.
    d\<lparr>items :=
        map (\<lambda>i. case subItemConfig i of
                    None \<Rightarrow> i
                  | Some config \<Rightarrow>
                      (case customSwimlanes config of
                         None \<Rightarrow> i
                       | Some lanes \<Rightarrow>
                           if item_id i \<noteq> itemId then i
                           else i\<lparr>subItemConfig :=
                                    Some (config\<lparr>customSwimlanes :=
                                      Some (map (\<lambda>s. if subswim_id s = laneId
                                                      then spreadSubSwimlane s updates else s)
                                              lanes)\<rparr>)\<rparr>))
            (items d),
      lastUpdated := now\<rparr>)"

definition deleteSubSwimlane :: "string \<Rightarrow> string \<Rightarrow> string \<Rightarrow> RoadmapStore \<Rightarrow> RoadmapStore" where
  "deleteSubSwimlane itemId laneId now = whenData (\<lambda>d.
    d\<lparr>items :=
        map (\<lambda>i. case subItemConfig i of
                    None \<Rightarrow> i
                  | Some config \<Rightarrow>
                      (case customSwimlanes config of
                         None \<Rightarrow> i
                       | Some lanes \<Rightarrow>
                           if item_id i \<noteq> itemId then i
                           else i\<lparr>subItemConfig :=
                                    Some (config\<lparr>customSwimlanes :=
                                      Some (filter (\<lambda>s. subswim_id s \<noteq> laneId) lanes)\<rparr>),
                                  subItems :=
                                    map_option
                                      (map (\<lambda>sub. if subSwimlaneId sub = Some laneId
                                                    then sub\<lparr>subSwimlaneId := None\<rparr>
                                                    else sub))
                                      (subItems i)\<rparr>))
            (items d),
      lastUpdated := now\<rparr>)"

section \<open>Derived views (store.ts, computed helpers)\<close>

text \<open>
  Strings are lists of bytes here. \<open>toLowerCase\<close> maps the ASCII capitals and leaves
  every other byte as it is, \<open>trim\<close> strips the ASCII white space (tab, line feed,
  vertical tab, form feed, carriage return, space), and \<open>includesStr\<close> (the method \<open>includes\<close>) is the substring
  test.
\<close>

definition toLowerChar :: "char \<Rightarrow> char" where
  "toLowerChar c =
    (let n = (of_char c :: nat) in if 65 \<le> n \<and> n \<le> 90 then char_of (n + 32) else c)"

definition toLowerCase :: "string \<Rightarrow> string" where
  "toLowerCase s = map toLowerChar s"

definition isWhiteSpace :: "char \<Rightarrow> bool" where
  "isWhiteSpace c = (let n = (of_char c :: nat) in (9 \<le> n \<and> n \<le> 13) \<or> n = 32)"

definition trim :: "string \<Rightarrow> string" where
  "trim s = rev (dropWhile isWhiteSpace (rev (dropWhile isWhiteSpace s)))"

fun startsWith :: "string \<Rightarrow> string \<Rightarrow> bool" where
  "startsWith s [] = True"
| "startsWith [] (q # qs) = False"
| "startsWith (c # cs) (q # qs) = (c = q \<and> startsWith cs qs)"

fun includesStr :: "string \<Rightarrow> string \<Rightarrow> bool" where
  "includesStr [] q = (q = [])"
| "includesStr (c # cs) q = (startsWith (c # cs) q \<or> includesStr cs q)"

text \<open>
  The first \<open>forEach\<close> of \<open>getFilteredItems\<close>: the identifiers that the primary items
  list in \<open>dependsOn\<close> or \<open>enables\<close> and that are not primary themselves.
\<close>

definition connectedOfPrimary :: "string set \<Rightarrow> RoadmapItem list \<Rightarrow> string set" where
  "connectedOfPrimary primaryIds primaryItems =
    fold (\<lambda>item connectedIds.
            (let c1 = fold (\<lambda>depId c. if depId \<notin> primaryIds then insert depId c else c)
                        (orEmpty (dependsOn item)) connectedIds;
                 c2 = fold (\<lambda>enId c. if enId \<notin> primaryIds then insert enId c else c)
                        (orEmpty (enables item)) c1
             in c2))
         primaryItems {}"

text \<open>
  The second \<open>forEach\<close>: an item that is neither primary nor connected yet joins when
  one of its \<open>dependsOn\<close> or \<open>enables\<close> identifiers is primary.
\<close>

definition connectedReverse ::
  "string set \<Rightarrow> RoadmapItem list \<Rightarrow> string set \<Rightarrow> string set" where
  "connectedReverse primaryIds nonArchivedItems connected0 =
    fold (\<lambda>item connectedIds.
            if item_id item \<notin> primaryIds \<and> item_id item \<notin> connectedIds
            then (let dependsOnPrimary = list_ex (\<lambda>x. x \<in> primaryIds) (orEmpty (dependsOn item));
                      enablesPrimary = list_ex (\<lambda>x. x \<in> primaryIds) (orEmpty (enables item))
                  in if dependsOnPrimary \<or> enablesPrimary
                     then insert (item_id item) connectedIds else connectedIds)
            else connectedIds)
         nonArchivedItems connected0"

definition getFilteredItems :: "RoadmapStore \<Rightarrow> RoadmapItem list" where
  "getFilteredItems st =
    (case data st of
       None \<Rightarrow> []
     | Some d \<Rightarrow>
        (let nonArchivedItems = filter (\<lambda>i. \<not> truthy (archived i)) (items d);
             fs = filters st;
             its = nonArchivedItems;
             its =
               (if length (filter_swimlanes fs) > 0
                then (let primaryItems =
                            filter (\<lambda>i. swimlaneId i \<in> set (filter_swimlanes fs)) nonArchivedItems;
                          primaryIds = set (map item_id primaryItems);
                          connectedIds = connectedOfPrimary primaryIds primaryItems;
                          connectedIds = connectedReverse primaryIds nonArchivedItems connectedIds
                      in filter (\<lambda>i. item_id i \<in> primaryIds \<or> item_id i \<in> connectedIds)
                           nonArchivedItems)
                else its);
             its = (if length (filter_stages fs) > 0
                    then filter (\<lambda>i. stage i \<in> set (filter_stages fs)) its else its);
             its = (if length (filter_types fs) > 0
                    then filter (\<lambda>i. item_type i \<in> set (filter_types fs)) its else its);
             its = (if length (filter_blockerStatus fs) > 0
                    then filter (\<lambda>i. item_type i \<noteq> Blocker \<or>
                                       (case blockerStatus i of None \<Rightarrow> False
                                        | Some b \<Rightarrow> b \<in> set (filter_blockerStatus fs))) its
                    else its);
             its = (if \<not> showCompleted fs
                    then filter (\<lambda>i. \<not> truthy (item_completed i)) its else its);
             its = (if trim (searchQuery fs) \<noteq> []
                    then (let query = toLowerCase (searchQuery fs)
                          in filter (\<lambda>i. includesStr (toLowerCase (item_title i)) query \<or>
                                           (case item_description i of None \<Rightarrow> False
                                            | Some t \<Rightarrow> includesStr (toLowerCase t) query)) its)
                    else its)
         in its))"

text \<open>
  \<open>[...xs].sort((a, b) => a.order - b.order)\<close>: the sort of the runtime is stable, as
  is \<open>sort_key\<close>.
\<close>

definition getFilteredSwimlanes :: "RoadmapStore \<Rightarrow> Swimlane list" where
  "getFilteredSwimlanes st =
    (case data st of
       None \<Rightarrow> []
     | Some d \<Rightarrow>
        if length (filter_swimlanes (filters st)) = 0
        then sort_key swimlane_order (swimlanes d)
        else (let filteredItems = getFilteredItems st;
                  swimlanesWithContent = set (map swimlaneId filteredItems)
              in sort_key swimlane_order
                   (filter (\<lambda>s. swimlane_id s \<in> swimlanesWithContent) (swimlanes d))))"

definition getItem :: "string \<Rightarrow> RoadmapStore \<Rightarrow> RoadmapItem option" where
  "getItem iid st =
    (case data st of None \<Rightarrow> None | Some d \<Rightarrow> find (\<lambda>i. item_id i = iid) (items d))"

definition getSubStages :: "string \<Rightarrow> RoadmapStore \<Rightarrow> SubStage list" where
  "getSubStages itemId st =
    (case (case getItem itemId st of None \<Rightarrow> None | Some i \<Rightarrow> customStagesOf i) of
       None \<Rightarrow> DEFAULT_SUB_STAGES
     | Some stages \<Rightarrow> sort_key stage_order stages)"

definition getSubSwimlanes :: "string \<Rightarrow> RoadmapStore \<Rightarrow> SubSwimlane list" where
  "getSubSwimlanes itemId st =
    (case (case getItem itemId st of None \<Rightarrow> None | Some i \<Rightarrow> customSwimlanesOf i) of
       None \<Rightarrow> []
     | Some lanes \<Rightarrow> sort_key subswim_order lanes)"

section \<open>Calls of the store as data\<close>

text \<open>
  One constructor for each action of the store that writes the document, with the
  arguments of the action followed by what the runtime supplies during the call: the
  time \<open>now\<close>, a new identifier where the action makes one, and one (identifier,
  timestamp) pair for each change-log entry it may write.
\<close>

datatype action =
    LoadData RoadmapData string
  | SetTitle string string
  | AddSwimlane string "string option" string string
  | UpdateSwimlane string PartialSwimlane string
  | DeleteSwimlane string string
  | ReorderSwimlanes "string list" string
  | AddItem RoadmapItem string string "string \<times> string"
  | UpdateItem string PartialItem string "string \<times> string" "string \<times> string"
      "string \<times> string" "string \<times> string"
  | DeleteItem string string
  | ArchiveItem string string "string \<times> string"
  | UnarchiveItem string string "string \<times> string"
  | AddDependency string string string
  | RemoveDependency string string string
  | AddLink string ExternalLink string string "string \<times> string"
  | RemoveLink string string string
  | AddCheckIn string string string string
  | ToggleCheckIn string string string
  | RemoveCheckIn string string string
  | AddSubItem string string string string "string \<times> string"
  | UpdateSubItem string string PartialSubItem string
  | DeleteSubItem string string string
  | ToggleSubItem string string string "string \<times> string"
  | ReorderSubItems string "string list" string
  | SetSubViewType string SubViewType string
  | AddSubStage string string string string
  | UpdateSubStage string string PartialSubStage string
  | DeleteSubStage string string string
  | ReorderSubStages string "string list" string
  | AddSubSwimlane string string "string option" string string
  | UpdateSubSwimlane string string PartialSubSwimlane string
  | DeleteSubSwimlane string string string

fun perform :: "action \<Rightarrow> RoadmapStore \<Rightarrow> RoadmapStore" where
  "perform (LoadData d now) st = loadData d now st"
| "perform (SetTitle t now) st = setTitle t now st"
| "perform (AddSwimlane name color nid now) st = addSwimlane name color nid now st"
| "perform (UpdateSwimlane sid u now) st = updateSwimlane sid u now st"
| "perform (DeleteSwimlane sid now) st = deleteSwimlane sid now st"
| "perform (ReorderSwimlanes ids now) st = reorderSwimlanes ids now st"
| "perform (AddItem item nid now fresh) st = snd (addItem item nid now fresh st)"
| "perform (UpdateItem iid u now f1 f2 f3 f4) st = updateItem iid u now f1 f2 f3 f4 st"
| "perform (DeleteItem iid now) st = deleteItem iid now st"
| "perform (ArchiveItem iid now fresh) st = archiveItem iid now fresh st"
| "perform (UnarchiveItem iid now fresh) st = unarchiveItem iid now fresh st"
| "perform (AddDependency fromId toId now) st = addDependency fromId toId now st"
| "perform (RemoveDependency fromId toId now) st = removeDependency fromId toId now st"
| "perform (AddLink iid link nid now fresh) st = addLink iid link nid now fresh st"
| "perform (RemoveLink iid lid now) st = removeLink iid lid now st"
| "perform (AddCheckIn iid label nid now) st = addCheckIn iid label nid now st"
| "perform (ToggleCheckIn iid cid now) st = toggleCheckIn iid cid now st"
| "perform (RemoveCheckIn iid cid now) st = removeCheckIn iid cid now st"
| "perform (AddSubItem iid ttl nid now fresh) st = addSubItem iid ttl nid now fresh st"
| "perform (UpdateSubItem iid sid u now) st = updateSubItem iid sid u now st"
| "perform (DeleteSubItem iid sid now) st = deleteSubItem iid sid now st"
| "perform (ToggleSubItem iid sid now fresh) st = toggleSubItem iid sid now fresh st"
| "perform (ReorderSubItems iid ids now) st = reorderSubItems iid ids now st"
| "perform (SetSubViewType iid v now) st = setSubViewType iid v now st"
| "perform (AddSubStage iid label nid now) st = addSubStage iid label nid now st"
| "perform (UpdateSubStage iid sid u now) st = updateSubStage iid sid u now st"
| "perform (DeleteSubStage iid sid now) st = deleteSubStage iid sid now st"
| "perform (ReorderSubStages iid ids now) st = reorderSubStages iid ids now st"
| "perform (AddSubSwimlane iid name color nid now) st = addSubSwimlane iid name color nid now st"
| "perform (UpdateSubSwimlane iid sid u now) st = updateSubSwimlane iid sid u now st"
| "perform (DeleteSubSwimlane iid sid now) st = deleteSubSwimlane iid sid now st"

text \<open>The calls of a list, one after the other.\<close>

definition performAll :: "action list \<Rightarrow> RoadmapStore \<Rightarrow> RoadmapStore" where
  "performAll acts st = fold perform acts st"

text \<open>The time the runtime reports to a call.\<close>

fun nowOf :: "action \<Rightarrow> string" where
  "nowOf (LoadData d now) = now"
| "nowOf (SetTitle t now) = now"
| "nowOf (AddSwimlane name color nid now) = now"
| "nowOf (UpdateSwimlane sid u now) = now"
| "nowOf (DeleteSwimlane sid now) = now"
| "nowOf (ReorderSwimlanes ids now) = now"
| "nowOf (AddItem item nid now fresh) = now"
| "nowOf (UpdateItem iid u now f1 f2 f3 f4) = now"
| "nowOf (DeleteItem iid now) = now"
| "nowOf (ArchiveItem iid now fresh) = now"
| "nowOf (UnarchiveItem iid now fresh) = now"
| "nowOf (AddDependency fromId toId now) = now"
| "nowOf (RemoveDependency fromId toId now) = now"
| "nowOf (AddLink iid link nid now fresh) = now"
| "nowOf (RemoveLink iid lid now) = now"
| "nowOf (AddCheckIn iid label nid now) = now"
| "nowOf (ToggleCheckIn iid cid now) = now"
| "nowOf (RemoveCheckIn iid cid now) = now"
| "nowOf (AddSubItem iid ttl nid now fresh) = now"
| "nowOf (UpdateSubItem iid sid u now) = now"
| "nowOf (DeleteSubItem iid sid now) = now"
| "nowOf (ToggleSubItem iid sid now fresh) = now"
| "nowOf (ReorderSubItems iid ids now) = now"
| "nowOf (SetSubViewType iid v now) = now"
| "nowOf (AddSubStage iid label nid now) = now"
| "nowOf (UpdateSubStage iid sid u now) = now"
| "nowOf (DeleteSubStage iid sid now) = now"
| "nowOf (ReorderSubStages iid ids now) = now"
| "nowOf (AddSubSwimlane iid name color nid now) = now"
| "nowOf (UpdateSubSwimlane iid sid u now) = now"
| "nowOf (DeleteSubSwimlane iid sid now) = now"

section \<open>Example documents\<close>

text \<open>A milestone in stage \<open>recent\<close> with no optional property set, and a store that holds
  a document of given items, with the default filters.\<close>

definition exampleItem :: "string \<Rightarrow> string \<Rightarrow> RoadmapItem" where
  "exampleItem iid sid =
    \<lparr>item_id = iid, item_type = Milestone, item_title = ''Milestone'', item_description = None,
     stage = Recent, swimlaneId = sid, reportedDate = None, targetDate = None, checkIns = None,
     blockerStatus = None, dependsOn = None, enables = None, item_links = None,
     outputIds = None, item_completed = None, item_order = None, isWin = None, archived = None,
     subItems = None, subItemConfig = None, itemLastUpdated = None, changeLog = None\<rparr>"

definition exampleData :: "RoadmapItem list \<Rightarrow> RoadmapData" where
  "exampleData its = \<lparr>title = ''Roadmap'', lastUpdated = ''t0'', swimlanes = [], items = its\<rparr>"

definition exampleStore :: "RoadmapItem list \<Rightarrow> RoadmapStore" where
  "exampleStore its = \<lparr>data = Some (exampleData its), filters = defaultFilters\<rparr>"

text \<open>An item with a kanban board of the default stages and one sub-item in stage \<open>done\<close>;
  an item whose only stage is \<open>todo\<close>; an item whose stages are stored out of order.\<close>

definition kanbanItem :: RoadmapItem where
  "kanbanItem = (exampleItem ''a'' ''s1'')
     \<lparr>subItems := Some [\<lparr>sub_id = ''x'', sub_title = ''task'', sub_description = None,
                          sub_completed = True, priority = None, statusTagId = None,
                          subStageId = Some ''done'', subSwimlaneId = None, sub_order = 0,
                          sub_links = None\<rparr>],
      subItemConfig := Some (defaultSubItemConfig Kanban)\<rparr>"

definition noBacklogItem :: RoadmapItem where
  "noBacklogItem = (exampleItem ''a'' ''s1'')
     \<lparr>subItemConfig := Some \<lparr>viewType = Kanban,
         customStages = Some [\<lparr>stage_id = ''todo'', stage_label = ''To do'', stage_order = 0\<rparr>],
         customSwimlanes = None, customStatusTags = None\<rparr>\<rparr>"

definition unsortedStagesItem :: RoadmapItem where
  "unsortedStagesItem = (exampleItem ''a'' ''s1'')
     \<lparr>subItemConfig := Some \<lparr>viewType = Kanban,
         customStages = Some [\<lparr>stage_id = ''later'', stage_label = ''Later'', stage_order = 1\<rparr>,
                              \<lparr>stage_id = ''now'', stage_label = ''Now'', stage_order = 0\<rparr>],
         customSwimlanes = None, customStatusTags = None\<rparr>\<rparr>"

section \<open>Dependency symmetry\<close>

text \<open>
  The invariant of the data model: among the items of the document, \<open>b.id\<close> is in
  \<open>a.dependsOn\<close> exactly when \<open>a.id\<close> is in \<open>b.enables\<close>. A store with no document
  satisfies it.
\<close>

definition symmetric :: "RoadmapData \<Rightarrow> bool" where
  "symmetric d =
    (\<forall>a \<in> set (items d). \<forall>b \<in> set (items d).
       (item_id b \<in> set (orEmpty (dependsOn a))) = (item_id a \<in> set (orEmpty (enables b))))"

definition symmetricStore :: "RoadmapStore \<Rightarrow> bool" where
  "symmetricStore st = (case data st of None \<Rightarrow> True | Some d \<Rightarrow> symmetric d)"

text \<open>
  The calls the invariant is stated for: \<open>deleteItem\<close>, and \<open>addDependency\<close> and
  \<open>removeDependency\<close> between two different identifiers (the dependency picker of the
  UI never offers the item itself).
\<close>

fun dependencyCall :: "action \<Rightarrow> bool" where
  "dependencyCall (AddDependency fromId toId now) = (fromId \<noteq> toId)"
| "dependencyCall (RemoveDependency fromId toId now) = (fromId \<noteq> toId)"
| "dependencyCall (DeleteItem iid now) = True"
| "dependencyCall other = False"

section \<open>Which calls stamp an item, and calls with an unknown identifier\<close>

text \<open>
  The identifier of the item whose \<open>itemLastUpdated\<close> a call sets to \<open>now\<close>: the
  actions whose callback writes \<open>itemLastUpdated: now\<close>. (\<open>addItem\<close> stamps the item it
  creates and is stated apart.)
\<close>

fun stampsItem :: "action \<Rightarrow> string option" where
  "stampsItem (UpdateItem iid u now f1 f2 f3 f4) = Some iid"
| "stampsItem (ArchiveItem iid now fresh) = Some iid"
| "stampsItem (UnarchiveItem iid now fresh) = Some iid"
| "stampsItem (AddLink iid link nid now fresh) = Some iid"
| "stampsItem (AddSubItem iid ttl nid now fresh) = Some iid"
| "stampsItem (ToggleSubItem iid sid now fresh) = Some iid"
| "stampsItem other = None"

text \<open>
  The calls that keep every item and its \<open>itemLastUpdated\<close>: the title and swimlane
  actions that do not remove items, and the dependency, link-removal, check-in, sub-item
  and sub-configuration actions, whose callbacks never write \<open>itemLastUpdated\<close>.
\<close>

fun keepsItemStamps :: "action \<Rightarrow> bool" where
  "keepsItemStamps (SetTitle t now) = True"
| "keepsItemStamps (AddSwimlane name color nid now) = True"
| "keepsItemStamps (UpdateSwimlane sid u now) = True"
| "keepsItemStamps (ReorderSwimlanes ids now) = True"
| "keepsItemStamps (AddDependency fromId toId now) = True"
| "keepsItemStamps (RemoveDependency fromId toId now) = True"
| "keepsItemStamps (RemoveLink iid lid now) = True"
| "keepsItemStamps (AddCheckIn iid label nid now) = True"
| "keepsItemStamps (ToggleCheckIn iid cid now) = True"
| "keepsItemStamps (RemoveCheckIn iid cid now) = True"
| "keepsItemStamps (UpdateSubItem iid sid u now) = True"
| "keepsItemStamps (DeleteSubItem iid sid now) = True"
| "keepsItemStamps (ReorderSubItems iid ids now) = True"
| "keepsItemStamps (SetSubViewType iid v now) = True"
| "keepsItemStamps (AddSubStage iid label nid now) = True"
| "keepsItemStamps (UpdateSubStage iid sid u now) = True"
| "keepsItemStamps (DeleteSubStage iid sid now) = True"
| "keepsItemStamps (ReorderSubStages iid ids now) = True"
| "keepsItemStamps (AddSubSwimlane iid name color nid now) = True"
| "keepsItemStamps (UpdateSubSwimlane iid sid u now) = True"
| "keepsItemStamps (DeleteSubSwimlane iid sid now) = True"
| "keepsItemStamps other = False"

definition itemIds :: "RoadmapData \<Rightarrow> string set" where
  "itemIds d = set (map item_id (items d))"

definition swimlaneIds :: "RoadmapData \<Rightarrow> string set" where
  "swimlaneIds d = set (map swimlane_id (swimlanes d))"

text \<open>No item lists the identifier in \<open>dependsOn\<close>, \<open>enables\<close> or \<open>outputIds\<close>.\<close>

definition unreferenced :: "string \<Rightarrow> RoadmapData \<Rightarrow> bool" where
  "unreferenced iid d =
    list_all (\<lambda>i. iid \<notin> set (orEmpty (dependsOn i)) \<and> iid \<notin> set (orEmpty (enables i))
                  \<and> iid \<notin> set (orEmpty (outputIds i))) (items d)"

text \<open>Every item with the given identifier satisfies the predicate.\<close>

definition everyItem :: "string \<Rightarrow> RoadmapData \<Rightarrow> (RoadmapItem \<Rightarrow> bool) \<Rightarrow> bool" where
  "everyItem iid d P = list_all (\<lambda>i. item_id i \<noteq> iid \<or> P i) (items d)"

text \<open>
  A call with an identifier that refers to nothing: an item or swimlane identifier that
  nothing in the document has, or the identifier of a link, check-in, sub-item, sub-stage
  or sub-swimlane that the addressed item does not have (which is also so when no item is
  addressed). Where the source does more with the identifier than look the entity up, more
  is asked:
  \<^item> \<open>deleteItem\<close>, \<open>deleteSwimlane\<close>, \<open>deleteSubStage\<close>, \<open>deleteSubSwimlane\<close> and
    \<open>removeDependency\<close> also clear the references to the identifier, so no item (sub-item)
    may still carry it;
  \<^item> \<open>addDependency\<close> writes on either item that exists, so both identifiers must be
    unknown;
  \<^item> \<open>toggleSubItem\<close> stamps the item before it looks for the sub-item, so the item
    identifier must be unknown;
  \<^item> the reorder actions keep the listed entities only, so an unknown identifier in their
    list says nothing: \<open>reorderSubItems\<close> and \<open>reorderSubStages\<close> count with an unknown
    item identifier, \<open>reorderSwimlanes\<close> never.
\<close>

fun refersToNothing :: "action \<Rightarrow> RoadmapData \<Rightarrow> bool" where
  "refersToNothing (UpdateSwimlane sid u now) d = (sid \<notin> swimlaneIds d)"
| "refersToNothing (DeleteSwimlane sid now) d =
     (sid \<notin> swimlaneIds d \<and> sid \<notin> set (map swimlaneId (items d)))"
| "refersToNothing (UpdateItem iid u now f1 f2 f3 f4) d = (iid \<notin> itemIds d)"
| "refersToNothing (DeleteItem iid now) d = (iid \<notin> itemIds d \<and> unreferenced iid d)"
| "refersToNothing (ArchiveItem iid now fresh) d = (iid \<notin> itemIds d)"
| "refersToNothing (UnarchiveItem iid now fresh) d = (iid \<notin> itemIds d)"
| "refersToNothing (AddDependency fromId toId now) d = (fromId \<notin> itemIds d \<and> toId \<notin> itemIds d)"
| "refersToNothing (RemoveDependency fromId toId now) d =
     ((fromId \<notin> itemIds d \<or> toId \<notin> itemIds d)
      \<and> everyItem fromId d (\<lambda>i. toId \<notin> set (orEmpty (dependsOn i)))
      \<and> everyItem toId d (\<lambda>i. fromId \<notin> set (orEmpty (enables i))))"
| "refersToNothing (AddLink iid link nid now fresh) d = (iid \<notin> itemIds d)"
| "refersToNothing (RemoveLink iid lid now) d =
     everyItem iid d (\<lambda>i. lid \<notin> set (map link_id (orEmpty (item_links i))))"
| "refersToNothing (AddCheckIn iid label nid now) d = (iid \<notin> itemIds d)"
| "refersToNothing (ToggleCheckIn iid cid now) d =
     everyItem iid d (\<lambda>i. cid \<notin> set (map checkin_id (orEmpty (checkIns i))))"
| "refersToNothing (RemoveCheckIn iid cid now) d =
     everyItem iid d (\<lambda>i. cid \<notin> set (map checkin_id (orEmpty (checkIns i))))"
| "refersToNothing (AddSubItem iid ttl nid now fresh) d = (iid \<notin> itemIds d)"
| "refersToNothing (UpdateSubItem iid sid u now) d =
     everyItem iid d (\<lambda>i. sid \<notin> set (map sub_id (orEmpty (subItems i))))"
| "refersToNothing (DeleteSubItem iid sid now) d =
     everyItem iid d (\<lambda>i. sid \<notin> set (map sub_id (orEmpty (subItems i))))"
| "refersToNothing (ToggleSubItem iid sid now fresh) d = (iid \<notin> itemIds d)"
| "refersToNothing (ReorderSubItems iid ids now) d = (iid \<notin> itemIds d)"
| "refersToNothing (SetSubViewType iid v now) d = (iid \<notin> itemIds d)"
| "refersToNothing (AddSubStage iid label nid now) d = (iid \<notin> itemIds d)"
| "refersToNothing (UpdateSubStage iid sid u now) d =
     everyItem iid d (\<lambda>i. sid \<notin> set (map stage_id (orEmpty (customStagesOf i))))"
| "refersToNothing (DeleteSubStage iid sid now) d =
     everyItem iid d (\<lambda>i. sid \<notin> set (map stage_id (orEmpty (customStagesOf i)))
                          \<and> Some sid \<notin> set (map subStageId (orEmpty (subItems i))))"
| "refersToNothing (ReorderSubStages iid ids now) d = (iid \<notin> itemIds d)"
| "refersToNothing (AddSubSwimlane iid name color nid now) d = (iid \<notin> itemIds d)"
| "refersToNothing (UpdateSubSwimlane iid sid u now) d =
     everyItem iid d (\<lambda>i. sid \<notin> set (map subswim_id (orEmpty (customSwimlanesOf i))))"
| "refersToNothing (DeleteSubSwimlane iid sid now) d =
     everyItem iid d (\<lambda>i. sid \<notin> set (map subswim_id (orEmpty (customSwimlanesOf i)))
                          \<and> Some sid \<notin> set (map subSwimlaneId (orEmpty (subItems i))))"
| "refersToNothing other d = False"

text \<open>The update \<open>{}\<close> of an item: no key.\<close>

definition noItemUpdates :: PartialItem where
  "noItemUpdates =
    \<lparr>p_item_id = None, p_item_type = None, p_item_title = None, p_item_description = None,
     p_stage = None, p_swimlaneId = None, p_reportedDate = None, p_targetDate = None,
     p_checkIns = None, p_blockerStatus = None, p_dependsOn = None, p_enables = None,
     p_item_links = None, p_outputIds = None, p_item_completed = None, p_item_order = None,
     p_isWin = None, p_archived = None, p_subItems = None, p_subItemConfig = None,
     p_itemLastUpdated = None, p_changeLog = None\<rparr>"

text \<open>
  An item that carries the identifier \<open>zz\<close>, which nothing has: as a dependency, and as
  the stage and the lane of its sub-item. Its board has the default stages and no lanes.
\<close>

definition strayItem :: RoadmapItem where
  "strayItem = (exampleItem ''a'' ''s1'')
     \<lparr>dependsOn := Some [''zz''],
      subItems := Some [\<lparr>sub_id = ''x'', sub_title = ''task'', sub_description = None,
                          sub_completed = False, priority = None, statusTagId = None,
                          subStageId = Some ''zz'', subSwimlaneId = Some ''zz'', sub_order = 0,
                          sub_links = None\<rparr>],
      subItemConfig := Some ((defaultSubItemConfig Kanban)\<lparr>customSwimlanes := Some []\<rparr>)\<rparr>"

text \<open>The update \<open>{ title: 'renamed' }\<close> of a sub-item.\<close>

definition renameSubItem :: PartialSubItem where
  "renameSubItem =
    \<lparr>p_sub_id = None, p_sub_title = Some ''renamed'', p_sub_description = None,
     p_sub_completed = None, p_priority = None, p_statusTagId = None, p_subStageId = None,
     p_subSwimlaneId = None, p_sub_order = None, p_sub_links = None\<rparr>"

section \<open>The bound of the change log\<close>

text \<open>
  One call of \<open>addChangeLog\<close>: entry type, description, metadata, and the identifier and
  timestamp the runtime supplies. \<open>entryOf\<close> is the entry the call appends.
\<close>

type_synonym logCall = "ChangeType \<times> string \<times> Metadata option \<times> (string \<times> string)"

definition entryOf :: "logCall \<Rightarrow> ChangeLogEntry" where
  "entryOf c = (case c of (ty, description, meta, fresh) \<Rightarrow>
     \<lparr>entry_id = fst fresh, entry_type = ty, timestamp = snd fresh,
      entry_description = description, metadata = meta\<rparr>)"

definition logLength :: "RoadmapItem \<Rightarrow> nat" where
  "logLength i = length (orEmpty (changeLog i))"

text \<open>
  The entries that an action appends to the change log of an item of the document, in the
  order of its \<open>addChangeLog\<close> calls: those of the \<open>map\<close> callback of the action when the
  item is the one the action addresses, none otherwise. Seven actions call
  \<open>addChangeLog\<close>; \<open>addItem\<close> does so on the item it makes, which is not yet in the
  document.
\<close>

fun logged :: "action \<Rightarrow> RoadmapItem \<Rightarrow> ChangeLogEntry list" where
  "logged (UpdateItem iid u now f1 f2 f3 f4) i =
     (if item_id i \<noteq> iid then []
      else (case readKey (p_item_completed u) of
              None \<Rightarrow> []
            | Some c \<Rightarrow>
                if Some c \<noteq> item_completed i \<and> c
                then [entryOf (Completed, ''Marked as completed'', None, f1)] else [])
         @ (if readKey (p_isWin u) = Some True \<and> \<not> truthy (isWin i)
            then [entryOf (MarkedWin, ''Highlighted as a win'', None, f2)] else [])
         @ (case p_stage u of
              None \<Rightarrow> []
            | Some s \<Rightarrow>
                if s \<noteq> stage i
                then [entryOf (StageChanged, ''Moved to '' @ stageLabels s,
                        Some \<lparr>fromValue = Some (stageLabels (stage i)),
                              toValue = Some (stageLabels s),
                              linkLabel = None, subItemTitle = None\<rparr>, f3)]
                else [])
         @ (case readKey (p_blockerStatus u) of
              None \<Rightarrow> []
            | Some b \<Rightarrow>
                if Some b \<noteq> blockerStatus i
                then [entryOf (StatusChanged, ''Status changed to '' @ blockerStatusText b,
                        Some \<lparr>fromValue = map_option blockerStatusText (blockerStatus i),
                              toValue = Some (blockerStatusText b),
                              linkLabel = None, subItemTitle = None\<rparr>, f4)]
                else []))"
| "logged (ArchiveItem iid now fresh) i =
     (if item_id i \<noteq> iid then [] else [entryOf (Archived, ''Archived'', None, fresh)])"
| "logged (UnarchiveItem iid now fresh) i =
     (if item_id i \<noteq> iid then []
      else [entryOf (Unarchived, ''Restored from archive'', None, fresh)])"
| "logged (AddLink iid link nid now fresh) i =
     (if item_id i \<noteq> iid then []
      else if link_type link = Some Publication \<or> link_type link = Some Presentation
              \<or> link_type link = Some Data
      then [entryOf (OutputAdded, ''Output added: '' @ link_label link,
              Some \<lparr>fromValue = None, toValue = None, linkLabel = Some (link_label link),
                    subItemTitle = None\<rparr>, fresh)]
      else [entryOf (LinkAdded, ''Link added: '' @ link_label link,
              Some \<lparr>fromValue = None, toValue = None, linkLabel = Some (link_label link),
                    subItemTitle = None\<rparr>, fresh)])"
| "logged (AddSubItem iid ttl nid now fresh) i =
     (if item_id i \<noteq> iid then []
      else [entryOf (SubitemAdded, ''Sub-item added: '' @ ttl,
              Some \<lparr>fromValue = None, toValue = None, linkLabel = None,
                    subItemTitle = Some ttl\<rparr>, fresh)])"
| "logged (ToggleSubItem iid sid now fresh) i =
     (if item_id i \<noteq> iid then []
      else (case (case subItems i of None \<Rightarrow> None
                  | Some ss \<Rightarrow> find (\<lambda>s. sub_id s = sid) ss) of
              None \<Rightarrow> []
            | Some s \<Rightarrow>
                if \<not> sub_completed s
                then [entryOf (SubitemCompleted, ''Sub-item completed: '' @ sub_title s,
                        Some \<lparr>fromValue = None, toValue = None, linkLabel = None,
                              subItemTitle = Some (sub_title s)\<rparr>, fresh)]
                else []))"
| "logged other i = []"

text \<open>
  A change log after entries were appended to it one after the other: \<open>addChangeLog\<close>
  keeps the last two of the old entries followed by the new one, at every call.
\<close>

definition appendLog :: "ChangeLogEntry list option \<Rightarrow> ChangeLogEntry list \<Rightarrow> ChangeLogEntry list option" where
  "appendLog l es = (if es = [] then l else Some (sliceLast2 (orEmpty l @ es)))"

text \<open>
  Where the item at index \<open>k\<close> of \<open>items\<close> is after an action. \<open>deleteItem\<close> and
  \<open>deleteSwimlane\<close> filter the array: the item is gone, or it moves down by the number of
  items removed before it. \<open>loadData\<close> replaces the document. Every other action maps
  over the array or leaves it alone (\<open>addItem\<close> appends to it).
\<close>

fun position :: "action \<Rightarrow> RoadmapData \<Rightarrow> nat \<Rightarrow> nat option" where
  "position (LoadData d' now) d k = None"
| "position (DeleteItem iid now) d k =
     (if item_id (items d ! k) = iid then None
      else Some (length (filter (\<lambda>i. item_id i \<noteq> iid) (take k (items d)))))"
| "position (DeleteSwimlane sid now) d k =
     (if swimlaneId (items d ! k) = sid then None
      else Some (length (filter (\<lambda>i. swimlaneId i \<noteq> sid) (take k (items d)))))"
| "position other d k = Some k"

text \<open>
  \<open>updateItem\<close> spreads its updates over the item, a \<open>changeLog\<close> key among them: with
  that key the log of the addressed item is replaced, not appended to.
\<close>

fun overwritesLog :: "action \<Rightarrow> RoadmapItem \<Rightarrow> bool" where
  "overwritesLog (UpdateItem iid u now f1 f2 f3 f4) i = (item_id i = iid \<and> p_changeLog u \<noteq> None)"
| "overwritesLog other i = False"

text \<open>
  An item followed through a sequence of actions, from index \<open>k\<close> of the document of the
  store: the index at which it ends and the entries the actions appended to its log, in
  order. The result is \<open>None\<close> when the item does not last: no document or no such index,
  an action that removes the item or replaces the document, or an \<open>updateItem\<close> that
  overwrites its log.
\<close>

fun follow :: "action list \<Rightarrow> RoadmapStore \<Rightarrow> nat \<Rightarrow> (nat \<times> ChangeLogEntry list) option" where
  "follow [] st k = Some (k, [])"
| "follow (a # acts) st k =
     (case data st of
        None \<Rightarrow> None
      | Some d \<Rightarrow>
          if length (items d) \<le> k \<or> overwritesLog a (items d ! k) then None
          else (case position a d k of
                  None \<Rightarrow> None
                | Some k' \<Rightarrow>
                    map_option (\<lambda>(k'', es). (k'', logged a (items d ! k) @ es))
                      (follow acts (perform a st) k')))"

text \<open>
  Five calls on a document whose second item is \<open>a\<close>: \<open>a\<close> is archived, the item before
  it is deleted, \<open>a\<close> gets a check-in, is restored and is moved to another stage.
\<close>

definition trackedActions :: "action list" where
  "trackedActions =
    [ArchiveItem ''a'' ''t1'' (''e1'', ''t1''),
     DeleteItem ''b'' ''t2'',
     AddCheckIn ''a'' ''review'' ''c1'' ''t3'',
     UnarchiveItem ''a'' ''t4'' (''e2'', ''t4''),
     UpdateItem ''a'' (noItemUpdates\<lparr>p_stage := Some LongTerm\<rparr>) ''t5''
       (''e3'', ''t5'') (''e4'', ''t5'') (''e5'', ''t5'') (''e6'', ''t5'')]"

text \<open>An item that carries three change-log entries, as an imported document may hold.\<close>

definition longLogItem :: RoadmapItem where
  "longLogItem = (exampleItem ''a'' ''s1'')
     \<lparr>changeLog := Some
        [\<lparr>entry_id = ''e1'', entry_type = Created, timestamp = ''t1'',
          entry_description = ''Item created'', metadata = None\<rparr>,
         \<lparr>entry_id = ''e2'', entry_type = Completed, timestamp = ''t2'',
          entry_description = ''Marked as completed'', metadata = None\<rparr>,
         \<lparr>entry_id = ''e3'', entry_type = MarkedWin, timestamp = ''t3'',
          entry_description = ''Highlighted as a win'', metadata = None\<rparr>]\<rparr>"

section \<open>Filtering across swimlanes: vocabulary and an example\<close>

text \<open>
  Two items are linked when one lists the identifier of the other in \<open>dependsOn\<close> or in
  \<open>enables\<close>: a dependency edge between them, in either direction.
\<close>

definition linked :: "RoadmapItem \<Rightarrow> RoadmapItem \<Rightarrow> bool" where
  "linked a b =
    (item_id a \<in> set (orEmpty (dependsOn b)) \<or> item_id a \<in> set (orEmpty (enables b))
     \<or> item_id b \<in> set (orEmpty (dependsOn a)) \<or> item_id b \<in> set (orEmpty (enables a)))"

text \<open>
  Three swimlanes, stored out of order, and three milestones in stage \<open>recent\<close>: \<open>m1\<close>
  in swimlane \<open>s1\<close>, \<open>m2\<close> in swimlane \<open>s2\<close>, which depends on \<open>m1\<close>, and \<open>m3\<close> in
  swimlane \<open>s3\<close>, with no dependency. The swimlane filter selects \<open>s2\<close>; every other
  filter has its default. The second document is the same without the dependency.
\<close>

definition laneS1 :: Swimlane where
  "laneS1 = \<lparr>swimlane_id = ''s1'', swimlane_name = ''Modeling'', swimlane_color = ''#3B82F6'',
             swimlane_order = 0\<rparr>"

definition laneS2 :: Swimlane where
  "laneS2 = \<lparr>swimlane_id = ''s2'', swimlane_name = ''Experiments'', swimlane_color = ''#10B981'',
             swimlane_order = 1\<rparr>"

definition laneS3 :: Swimlane where
  "laneS3 = \<lparr>swimlane_id = ''s3'', swimlane_name = ''Outreach'', swimlane_color = ''#F59E0B'',
             swimlane_order = 2\<rparr>"

definition itemM1 :: RoadmapItem where
  "itemM1 = exampleItem ''m1'' ''s1''"

definition itemM2 :: RoadmapItem where
  "itemM2 = (exampleItem ''m2'' ''s2'')\<lparr>dependsOn := Some [''m1'']\<rparr>"

definition itemM3 :: RoadmapItem where
  "itemM3 = exampleItem ''m3'' ''s3''"

definition crossLaneData :: RoadmapData where
  "crossLaneData = \<lparr>title = ''Roadmap'', lastUpdated = ''t0'',
                     swimlanes = [laneS3, laneS2, laneS1],
                     items = [itemM1, itemM3, itemM2]\<rparr>"

definition crossLaneStore :: RoadmapStore where
  "crossLaneStore =
    \<lparr>data = Some crossLaneData, filters = defaultFilters\<lparr>filter_swimlanes := [''s2'']\<rparr>\<rparr>"

definition unlinkedLaneData :: RoadmapData where
  "unlinkedLaneData = crossLaneData\<lparr>items := [itemM1, itemM3, exampleItem ''m2'' ''s2'']\<rparr>"

definition unlinkedLaneStore :: RoadmapStore where
  "unlinkedLaneStore =
    \<lparr>data = Some unlinkedLaneData, filters = defaultFilters\<lparr>filter_swimlanes := [''s2'']\<rparr>\<rparr>"


section \<open>Properties\<close>

subsection \<open>What addChangeLog leaves alone\<close>

lemma addChangeLog_fields:
  "item_id (addChangeLog i ty ds m f) = item_id i"
  "archived (addChangeLog i ty ds m f) = archived i"
  "item_completed (addChangeLog i ty ds m f) = item_completed i"
  "itemLastUpdated (addChangeLog i ty ds m f) = itemLastUpdated i"
  "subItems (addChangeLog i ty ds m f) = subItems i"
  "subItemConfig (addChangeLog i ty ds m f) = subItemConfig i"
  "dependsOn (addChangeLog i ty ds m f) = dependsOn i"
  "enables (addChangeLog i ty ds m f) = enables i"
  by (simp_all add: addChangeLog_def Let_def)

subsection \<open>Archiving and restoring\<close>

text \<open>
  C7. In a loaded document that holds an item with the identifier \<open>iid\<close>,
  \<open>archiveItem(iid)\<close> followed by \<open>unarchiveItem(iid)\<close> leaves an item with that
  identifier, and every item with that identifier has \<open>archived = false\<close> and
  \<open>completed = true\<close>: archiving forces completion and restoring does not revert it.
\<close>

theorem archive_then_unarchive:
  assumes "data st = Some d" and "i \<in> set (items d)" and "item_id i = iid"
  shows "\<exists>d'. data (unarchiveItem iid now2 f2 (archiveItem iid now1 f1 st)) = Some d'
           \<and> (\<exists>i' \<in> set (items d'). item_id i' = iid)
           \<and> (\<forall>i' \<in> set (items d'). item_id i' = iid \<longrightarrow>
                 archived i' = Some False \<and> item_completed i' = Some True)"
proof -
  define g where "g = (\<lambda>x. if item_id x \<noteq> iid then x
      else addChangeLog
             ((addChangeLog (x\<lparr>archived := Some True, item_completed := Some True,
                               itemLastUpdated := Some now1\<rparr>) Archived ''Archived'' None f1)
                \<lparr>archived := Some False, itemLastUpdated := Some now2\<rparr>)
             Unarchived ''Restored from archive'' None f2)"
  have eq: "data (unarchiveItem iid now2 f2 (archiveItem iid now1 f1 st))
             = Some (d\<lparr>items := map g (items d), lastUpdated := now2\<rparr>)"
    using assms(1)
    by (simp add: unarchiveItem_def archiveItem_def whenData_def Let_def g_def comp_def
             addChangeLog_fields cong: map_cong)
  have id_g: "item_id (g x) = item_id x" for x
    by (simp add: g_def addChangeLog_fields)
  have "g i \<in> set (map g (items d))"
    using assms(2) by simp
  moreover have "item_id (g i) = iid"
    using assms(3) by (simp add: id_g)
  moreover have "archived i' = Some False \<and> item_completed i' = Some True"
    if "i' \<in> set (map g (items d))" and "item_id i' = iid" for i'
  proof -
    from that(1) obtain x where x: "x \<in> set (items d)" "i' = g x" by auto
    with that(2) have "item_id x = iid" by (simp add: id_g)
    with x show ?thesis by (simp add: g_def addChangeLog_fields)
  qed
  ultimately show ?thesis
    using eq by auto
qed

theorem archive_then_unarchive_witness:
  "\<exists>d'. data (unarchiveItem ''a'' ''t2'' (''n2'', ''t2'')
              (archiveItem ''a'' ''t1'' (''n1'', ''t1'') (exampleStore [exampleItem ''a'' ''s1'']))) = Some d'
        \<and> (\<exists>i' \<in> set (items d'). item_id i' = ''a'')
        \<and> (\<forall>i' \<in> set (items d'). item_id i' = ''a'' \<longrightarrow>
              archived i' = Some False \<and> item_completed i' = Some True)"
  using archive_then_unarchive [of "exampleStore [exampleItem ''a'' ''s1'']"
      "exampleData [exampleItem ''a'' ''s1'']"
      "exampleItem ''a'' ''s1''" "''a''" "''t2''" "(''n2'', ''t2'')" "''t1''" "(''n1'', ''t1'')"]
  by (simp add: exampleStore_def exampleData_def exampleItem_def)

subsection \<open>Adding a sub-item\<close>

lemma find_Some_D: "find P xs = Some x \<Longrightarrow> x \<in> set xs \<and> P x"
  by (induction xs) (auto split: if_splits)

text \<open>
  C10. In a loaded document, for the item \<open>it\<close> that \<open>find\<close> returns for \<open>itemId\<close>,
  \<open>addSubItem(itemId, title)\<close> keeps the number of items, leaves the items with another
  identifier as they are, and gives \<open>it\<close> its former sub-items followed by exactly one
  new sub-item: not completed, with \<open>order\<close> the former number of sub-items and with
  \<open>subStageId\<close> the literal \<open>backlog\<close>, whatever the stages of the item are. A
  configuration that the item already has is kept as it is, so a stage list without
  \<open>backlog\<close> leaves the new reference dangling.
\<close>

theorem addSubItem_appends_backlog:
  assumes "data st = Some d"
    and "find (\<lambda>i. item_id i = iid) (items d) = Some it"
  shows "\<exists>d'.
           data (addSubItem iid ttl nid now fresh st) = Some d'
         \<and> length (items d') = length (items d)
         \<and> (\<forall>k < length (items d).
               (items d ! k = it \<longrightarrow>
                  subItems (items d' ! k) =
                    Some (orEmpty (subItems it) @
                      [\<lparr>sub_id = nid, sub_title = ttl, sub_description = None,
                        sub_completed = False, priority = None, statusTagId = None,
                        subStageId = Some ''backlog'', subSwimlaneId = None,
                        sub_order = int (length (orEmpty (subItems it))), sub_links = None\<rparr>])
                \<and> (\<forall>c. subItemConfig it = Some c \<longrightarrow> subItemConfig (items d' ! k) = Some c))
             \<and> (item_id (items d ! k) \<noteq> iid \<longrightarrow> items d' ! k = items d ! k))"
proof -
  from assms(2) have it: "it \<in> set (items d)" "item_id it = iid"
    using find_Some_D [of "\<lambda>i. item_id i = iid" "items d" it] by auto
  show ?thesis
    using assms it
    by (simp add: addSubItem_def whenData_def Let_def addChangeLog_fields split: option.splits)
qed

theorem addSubItem_appends_backlog_witness:
  "\<exists>d' i'. data (addSubItem ''a'' ''task'' ''n1'' ''t1'' (''n2'', ''t1'') (exampleStore [noBacklogItem])) = Some d'
     \<and> items d' = [i']
     \<and> map subStageId (orEmpty (subItems i')) = [Some ''backlog'']
     \<and> map sub_completed (orEmpty (subItems i')) = [False]
     \<and> map sub_order (orEmpty (subItems i')) = [0]
     \<and> map stage_id (orEmpty (customStagesOf i')) = [''todo'']"
  using addSubItem_appends_backlog [of "exampleStore [noBacklogItem]" "exampleData [noBacklogItem]"
      "''a''" noBacklogItem "''task''" "''n1''" "''t1''" "(''n2'', ''t1'')"]
  by (auto simp: exampleStore_def exampleData_def noBacklogItem_def exampleItem_def orEmpty_def
      customStagesOf_def length_Suc_conv)

subsection \<open>Deleting a sub-stage\<close>

text \<open>
  C3. The item \<open>kanbanItem\<close> has the default stages (done, in-progress, up-next, backlog)
  and one sub-item in stage \<open>done\<close>, the first of the list. After
  \<open>deleteSubStage(''a'', ''done'')\<close> the stage is gone from the list and the sub-item is
  still there, but its \<open>subStageId\<close> is still \<open>done\<close>: the replacement is read from
  the first element of the stage list as it was before the deletion. The sub-item is in
  none of the remaining stages.
\<close>

theorem deleteSubStage_first_stage_dangles:
  "\<exists>d' i' s'. data (deleteSubStage ''a'' ''done'' ''t1'' (exampleStore [kanbanItem])) = Some d'
      \<and> items d' = [i'] \<and> subItems i' = Some [s']
      \<and> subStageId s' = Some ''done''
      \<and> map stage_id (orEmpty (customStagesOf i')) = [''in-progress'', ''up-next'', ''backlog'']"
  by (simp add: deleteSubStage_def whenData_def exampleStore_def exampleData_def kanbanItem_def
      exampleItem_def defaultSubItemConfig_def DEFAULT_SUB_STAGES_def firstStageId_def
      customStagesOf_def orEmpty_def)

subsection \<open>The stages of an item\<close>

text \<open>
  C6, as the claim states it: an item with no configuration would get the default stages
  in the order Backlog, Up Next, In Progress, Done. It does not.
\<close>

theorem getSubStages_counterexample:
  "map stage_label (getSubStages ''a'' (exampleStore [exampleItem ''a'' ''s1'']))
     \<noteq> [''Backlog'', ''Up Next'', ''In Progress'', ''Done'']"
  by (simp add: getSubStages_def getItem_def exampleStore_def exampleData_def exampleItem_def
      customStagesOf_def DEFAULT_SUB_STAGES_def)

text \<open>
  C6, amended. When no document is loaded, no item has the identifier, the item has no
  configuration or its configuration has no stage list, \<open>getSubStages\<close> returns the fixed
  default set of four stages in the order Done, In Progress, Up Next, Backlog (orders 0 to
  3). For an item with a stage list it returns that list sorted by \<open>order\<close>.
\<close>

theorem getSubStages_default_or_sorted:
  "((case getItem iid st of None \<Rightarrow> None | Some i \<Rightarrow> customStagesOf i) = None \<longrightarrow>
      getSubStages iid st = DEFAULT_SUB_STAGES
      \<and> map stage_label (getSubStages iid st) = [''Done'', ''In Progress'', ''Up Next'', ''Backlog'']
      \<and> map stage_order (getSubStages iid st) = [0, 1, 2, 3])
   \<and> (\<forall>i stages. getItem iid st = Some i \<and> customStagesOf i = Some stages \<longrightarrow>
        getSubStages iid st = sort_key stage_order stages
        \<and> sorted (map stage_order (getSubStages iid st))
        \<and> set (getSubStages iid st) = set stages
        \<and> length (getSubStages iid st) = length stages)"
  by (auto simp: getSubStages_def DEFAULT_SUB_STAGES_def)

theorem getSubStages_default_or_sorted_witness:
  "map stage_label (getSubStages ''a'' (exampleStore [exampleItem ''a'' ''s1'']))
     = [''Done'', ''In Progress'', ''Up Next'', ''Backlog'']
   \<and> map stage_label (getSubStages ''a'' (exampleStore [unsortedStagesItem])) = [''Now'', ''Later'']"
  using getSubStages_default_or_sorted [of "''a''" "exampleStore [exampleItem ''a'' ''s1'']"]
    getSubStages_default_or_sorted [of "''a''" "exampleStore [unsortedStagesItem]"]
  by (simp add: getItem_def exampleStore_def exampleData_def exampleItem_def
      unsortedStagesItem_def customStagesOf_def DEFAULT_SUB_STAGES_def)

subsection \<open>Dependency symmetry\<close>

lemma addDependencyBody_id: "item_id (addDependencyBody f t i) = item_id i"
  by (simp add: addDependencyBody_def)

lemma addDependencyBody_dependsOn:
  "f \<noteq> t \<Longrightarrow> set (orEmpty (dependsOn (addDependencyBody f t i))) =
     (if item_id i = f then insert t (set (orEmpty (dependsOn i))) else set (orEmpty (dependsOn i)))"
  by (auto simp: addDependencyBody_def orEmpty_def)

lemma addDependencyBody_enables:
  "f \<noteq> t \<Longrightarrow> set (orEmpty (enables (addDependencyBody f t i))) =
     (if item_id i = t then insert f (set (orEmpty (enables i))) else set (orEmpty (enables i)))"
  by (auto simp: addDependencyBody_def orEmpty_def)

lemma removeDependencyBody_id: "item_id (removeDependencyBody f t i) = item_id i"
  by (simp add: removeDependencyBody_def)

lemma orEmpty_map_option_filter:
  "set (orEmpty (map_option (filter P) xs)) = {x \<in> set (orEmpty xs). P x}"
  by (cases xs) (auto simp: orEmpty_def)

lemma removeDependencyBody_dependsOn:
  "f \<noteq> t \<Longrightarrow> set (orEmpty (dependsOn (removeDependencyBody f t i))) =
     (if item_id i = f then set (orEmpty (dependsOn i)) - {t} else set (orEmpty (dependsOn i)))"
  by (auto simp: removeDependencyBody_def orEmpty_map_option_filter)

lemma removeDependencyBody_enables:
  "f \<noteq> t \<Longrightarrow> set (orEmpty (enables (removeDependencyBody f t i))) =
     (if item_id i = t then set (orEmpty (enables i)) - {f} else set (orEmpty (enables i)))"
  by (auto simp: removeDependencyBody_def orEmpty_map_option_filter)

lemma symmetric_addDependency:
  assumes "symmetric d" and "f \<noteq> t"
  shows "symmetric (d\<lparr>items := map (addDependencyBody f t) (items d), lastUpdated := now\<rparr>)"
  using assms
  by (auto simp: symmetric_def addDependencyBody_id addDependencyBody_dependsOn
      addDependencyBody_enables)

lemma symmetric_removeDependency:
  assumes "symmetric d" and "f \<noteq> t"
  shows "symmetric (d\<lparr>items := map (removeDependencyBody f t) (items d), lastUpdated := now\<rparr>)"
  using assms
  by (auto simp: symmetric_def removeDependencyBody_id removeDependencyBody_dependsOn
      removeDependencyBody_enables)

lemma symmetric_deleteItem:
  assumes "symmetric d"
  shows "symmetric (d\<lparr>items :=
           map (\<lambda>i. i\<lparr>dependsOn := map_option (filter (\<lambda>x. x \<noteq> iid)) (dependsOn i),
                      enables := map_option (filter (\<lambda>e. e \<noteq> iid)) (enables i),
                      outputIds := map_option (filter (\<lambda>x. x \<noteq> iid)) (outputIds i)\<rparr>)
               (filter (\<lambda>i. item_id i \<noteq> iid) (items d)),
           lastUpdated := now\<rparr>)"
  using assms
  by (auto simp: symmetric_def orEmpty_map_option_filter)

lemma dependencyCall_step:
  assumes "symmetricStore st" and "dependencyCall a"
  shows "symmetricStore (perform a st)"
proof (cases a)
  case (AddDependency f t now)
  with assms show ?thesis
    by (auto simp: symmetricStore_def addDependency_def whenData_def symmetric_addDependency
             split: option.splits)
next
  case (RemoveDependency f t now)
  with assms show ?thesis
    by (auto simp: symmetricStore_def removeDependency_def whenData_def symmetric_removeDependency
             split: option.splits)
next
  case (DeleteItem iid now)
  with assms show ?thesis
    by (auto simp: symmetricStore_def deleteItem_def whenData_def Let_def symmetric_deleteItem
             split: option.splits)
qed (use assms in simp_all)

lemma dependencyCalls_all:
  "symmetricStore st \<Longrightarrow> \<forall>a \<in> set acts. dependencyCall a \<Longrightarrow> symmetricStore (performAll acts st)"
  unfolding performAll_def
  by (induction acts arbitrary: st) (simp_all add: dependencyCall_step)

text \<open>
  C1, amended. Starting from a store whose document satisfies the dependency symmetry, after
  every call of a sequence of \<open>deleteItem\<close> calls and of \<open>addDependency\<close> and
  \<open>removeDependency\<close> calls between two different identifiers, the document satisfies
  it again: for all items \<open>a\<close> and \<open>b\<close> (the same item included), \<open>b.id\<close> is in
  \<open>a.dependsOn\<close> exactly when \<open>a.id\<close> is in \<open>b.enables\<close>.
\<close>

theorem dependency_symmetry_preserved:
  assumes "symmetricStore st" and "\<forall>a \<in> set acts. dependencyCall a"
  shows "\<forall>n. symmetricStore (performAll (take n acts) st)"
proof
  fix n
  have "\<forall>a \<in> set (take n acts). dependencyCall a"
    using assms(2) by (meson in_set_takeD)
  with assms(1) show "symmetricStore (performAll (take n acts) st)"
    by (rule dependencyCalls_all)
qed

theorem dependency_symmetry_witness:
  "\<forall>n. symmetricStore (performAll (take n
      [AddDependency ''a'' ''b'' ''t1'', RemoveDependency ''a'' ''b'' ''t2'',
       AddDependency ''b'' ''a'' ''t3'', DeleteItem ''a'' ''t4''])
      (exampleStore [exampleItem ''a'' ''s1'', exampleItem ''b'' ''s1'']))"
  using dependency_symmetry_preserved [of "exampleStore [exampleItem ''a'' ''s1'', exampleItem ''b'' ''s1'']"
      "[AddDependency ''a'' ''b'' ''t1'', RemoveDependency ''a'' ''b'' ''t2'',
       AddDependency ''b'' ''a'' ''t3'', DeleteItem ''a'' ''t4'']"]
  by (simp add: symmetricStore_def symmetric_def exampleStore_def exampleData_def exampleItem_def
      orEmpty_def)

text \<open>
  C1, as the claim states it, with \<open>addDependency(x, x)\<close> included: the callback returns
  as soon as it has added \<open>x\<close> to \<open>dependsOn\<close>, and \<open>enables\<close> is never written.
  The document with the single item \<open>x\<close> is symmetric before the call and not after.
\<close>

theorem self_dependency_counterexample:
  "symmetricStore (exampleStore [exampleItem ''x'' ''s1''])
   \<and> \<not> symmetricStore (perform (AddDependency ''x'' ''x'' ''t1'') (exampleStore [exampleItem ''x'' ''s1'']))"
  by (simp add: symmetricStore_def symmetric_def exampleStore_def exampleData_def exampleItem_def
      orEmpty_def addDependency_def addDependencyBody_def whenData_def)

subsection \<open>Calls with an unknown identifier\<close>

lemma map_unchanged: "(\<And>x. x \<in> set xs \<Longrightarrow> f x = x) \<Longrightarrow> map f xs = xs"
  by (induction xs) auto

lemma unknown_item: "iid \<notin> itemIds d \<Longrightarrow> x \<in> set (items d) \<Longrightarrow> item_id x \<noteq> iid"
  by (auto simp: itemIds_def)

lemma filter_unchanged: "(\<And>x. x \<in> set xs \<Longrightarrow> P x) \<Longrightarrow> filter P xs = xs"
  by (induction xs) auto

lemma scrub_unchanged:
  "iid \<notin> set (orEmpty xs) \<Longrightarrow> map_option (filter (\<lambda>x. x \<noteq> iid)) xs = xs"
  by (cases xs) (auto simp: orEmpty_def intro!: filter_unchanged)

lemma remove_unknown:
  "k \<notin> set (map key (orEmpty xs)) \<Longrightarrow> map_option (filter (\<lambda>x. key x \<noteq> k)) xs = xs"
  by (cases xs) (auto simp: orEmpty_def intro!: filter_unchanged)

lemma update_unknown:
  "k \<notin> set (map key (orEmpty xs)) \<Longrightarrow>
     map_option (map (\<lambda>x. if key x = k then g x else x)) xs = xs"
  by (cases xs) (auto simp: orEmpty_def intro!: map_unchanged)

lemma everyItemD: "everyItem iid d P \<Longrightarrow> x \<in> set (items d) \<Longrightarrow> item_id x = iid \<Longrightarrow> P x"
  by (auto simp: everyItem_def list_all_iff)

lemma whenData_items_unchanged:
  assumes "data st = Some d" and "\<And>x. x \<in> set (items d) \<Longrightarrow> f x = x"
  shows "whenData (\<lambda>d. d\<lparr>items := map f (items d), lastUpdated := now\<rparr>) st
           = st\<lparr>data := Some (d\<lparr>lastUpdated := now\<rparr>)\<rparr>"
proof -
  have "map f (items d) = items d"
    using assms(2) by (rule map_unchanged)
  with assms(1) show ?thesis
    by (simp add: whenData_def)
qed

text \<open>
  The calls below carry an identifier that nothing has, and the document after them is
  not the document before with \<open>lastUpdated\<close> replaced: \<open>toggleSubItem\<close> with an unknown
  sub-item stamps the item; \<open>deleteItem\<close>, \<open>deleteSwimlane\<close>, \<open>removeDependency\<close>,
  \<open>deleteSubStage\<close> and \<open>deleteSubSwimlane\<close> clear the stray references to the
  identifier (\<open>deleteSwimlane\<close> removes the items, \<open>deleteSubStage\<close> moves the sub-item
  to the first stage); \<open>addDependency\<close> writes the unknown identifier on the item that
  exists; the reorder actions keep only the entities their list names.
\<close>

lemma stray_updateItem:
  "''zz'' \<notin> itemIds (exampleData [strayItem])
   \<and> data (perform (UpdateItem ''zz'' noItemUpdates ''t1'' (''n1'', ''t1'') (''n2'', ''t1'')
              (''n3'', ''t1'') (''n4'', ''t1'')) (exampleStore [strayItem]))
       \<noteq> data (exampleStore [strayItem])"
  by (simp add: exampleStore_def exampleData_def strayItem_def exampleItem_def itemIds_def
      updateItem_def whenData_def)

lemma stray_toggleSubItem:
  "''zz'' \<notin> set (map sub_id (orEmpty (subItems strayItem)))
   \<and> perform (ToggleSubItem ''a'' ''zz'' ''t1'' (''n1'', ''t1'')) (exampleStore [strayItem])
       \<noteq> (exampleStore [strayItem])\<lparr>data := Some ((exampleData [strayItem])\<lparr>lastUpdated := ''t1''\<rparr>)\<rparr>"
  by (simp add: exampleStore_def exampleData_def strayItem_def exampleItem_def orEmpty_def
      toggleSubItem_def whenData_def Let_def)

lemma stray_deleteItem:
  "''zz'' \<notin> itemIds (exampleData [strayItem])
   \<and> perform (DeleteItem ''zz'' ''t1'') (exampleStore [strayItem])
       \<noteq> (exampleStore [strayItem])\<lparr>data := Some ((exampleData [strayItem])\<lparr>lastUpdated := ''t1''\<rparr>)\<rparr>"
  by (simp add: exampleStore_def exampleData_def strayItem_def exampleItem_def itemIds_def
      deleteItem_def whenData_def Let_def)

lemma stray_deleteSwimlane:
  "''s1'' \<notin> swimlaneIds (exampleData [strayItem])
   \<and> perform (DeleteSwimlane ''s1'' ''t1'') (exampleStore [strayItem])
       \<noteq> (exampleStore [strayItem])\<lparr>data := Some ((exampleData [strayItem])\<lparr>lastUpdated := ''t1''\<rparr>)\<rparr>"
  by (simp add: exampleStore_def exampleData_def strayItem_def exampleItem_def swimlaneIds_def
      deleteSwimlane_def whenData_def Let_def)

lemma stray_addDependency:
  "''zz'' \<notin> itemIds (exampleData [strayItem])
   \<and> perform (AddDependency ''zz'' ''a'' ''t1'') (exampleStore [strayItem])
       \<noteq> (exampleStore [strayItem])\<lparr>data := Some ((exampleData [strayItem])\<lparr>lastUpdated := ''t1''\<rparr>)\<rparr>"
  by (simp add: exampleStore_def exampleData_def strayItem_def exampleItem_def itemIds_def
      addDependency_def addDependencyBody_def orEmpty_def whenData_def Let_def)

lemma stray_removeDependency:
  "''zz'' \<notin> itemIds (exampleData [strayItem])
   \<and> perform (RemoveDependency ''a'' ''zz'' ''t1'') (exampleStore [strayItem])
       \<noteq> (exampleStore [strayItem])\<lparr>data := Some ((exampleData [strayItem])\<lparr>lastUpdated := ''t1''\<rparr>)\<rparr>"
  by (simp add: exampleStore_def exampleData_def strayItem_def exampleItem_def itemIds_def
      removeDependency_def removeDependencyBody_def orEmpty_def whenData_def Let_def)

lemma stray_reorderSubItems:
  "''zz'' \<notin> set (map sub_id (orEmpty (subItems strayItem)))
   \<and> perform (ReorderSubItems ''a'' [''zz''] ''t1'') (exampleStore [strayItem])
       \<noteq> (exampleStore [strayItem])\<lparr>data := Some ((exampleData [strayItem])\<lparr>lastUpdated := ''t1''\<rparr>)\<rparr>"
  by (simp add: exampleStore_def exampleData_def strayItem_def exampleItem_def orEmpty_def
      reorderSubItems_def whenData_def Let_def List.map_filter_def enumerate_eq_zip)

lemma stray_reorderSubStages:
  "''zz'' \<notin> set (map stage_id (orEmpty (customStagesOf strayItem)))
   \<and> perform (ReorderSubStages ''a'' [''zz''] ''t1'') (exampleStore [strayItem])
       \<noteq> (exampleStore [strayItem])\<lparr>data := Some ((exampleData [strayItem])\<lparr>lastUpdated := ''t1''\<rparr>)\<rparr>"
  by (simp add: exampleStore_def exampleData_def strayItem_def exampleItem_def orEmpty_def
      customStagesOf_def defaultSubItemConfig_def DEFAULT_SUB_STAGES_def
      reorderSubStages_def whenData_def Let_def List.map_filter_def enumerate_eq_zip)

lemma stray_reorderSwimlanes:
  "''zz'' \<notin> swimlaneIds ((exampleData [])\<lparr>swimlanes := [laneS1]\<rparr>)
   \<and> perform (ReorderSwimlanes [''zz''] ''t1'') ((exampleStore [])\<lparr>data := Some ((exampleData [])\<lparr>swimlanes := [laneS1]\<rparr>)\<rparr>)
       \<noteq> (exampleStore [])\<lparr>data := Some ((exampleData [])\<lparr>swimlanes := [laneS1], lastUpdated := ''t1''\<rparr>)\<rparr>"
  by (simp add: exampleStore_def exampleData_def laneS1_def swimlaneIds_def
      reorderSwimlanes_def whenData_def Let_def List.map_filter_def enumerate_eq_zip)

lemma stray_deleteSubStage:
  "''zz'' \<notin> set (map stage_id (orEmpty (customStagesOf strayItem)))
   \<and> perform (DeleteSubStage ''a'' ''zz'' ''t1'') (exampleStore [strayItem])
       \<noteq> (exampleStore [strayItem])\<lparr>data := Some ((exampleData [strayItem])\<lparr>lastUpdated := ''t1''\<rparr>)\<rparr>"
  by (simp add: exampleStore_def exampleData_def strayItem_def exampleItem_def orEmpty_def
      customStagesOf_def defaultSubItemConfig_def DEFAULT_SUB_STAGES_def firstStageId_def
      deleteSubStage_def whenData_def Let_def)

lemma stray_deleteSubSwimlane:
  "''zz'' \<notin> set (map subswim_id (orEmpty (customSwimlanesOf strayItem)))
   \<and> perform (DeleteSubSwimlane ''a'' ''zz'' ''t1'') (exampleStore [strayItem])
       \<noteq> (exampleStore [strayItem])\<lparr>data := Some ((exampleData [strayItem])\<lparr>lastUpdated := ''t1''\<rparr>)\<rparr>"
  by (simp add: exampleStore_def exampleData_def strayItem_def exampleItem_def orEmpty_def
      customSwimlanesOf_def defaultSubItemConfig_def
      deleteSubSwimlane_def whenData_def Let_def)

text \<open>
  C5, amended. In a loaded document, a call with an identifier that refers to nothing
  (\<open>refersToNothing\<close>) leaves the title, the swimlanes, the items and the view state as
  they are and sets \<open>lastUpdated\<close> to the time of the call: the store after the call is
  the store before it with \<open>lastUpdated\<close> replaced. The identifier is
  \<^item> an item identifier that no item has (\<open>updateItem\<close>, \<open>archiveItem\<close>, \<open>unarchiveItem\<close>,
    \<open>addLink\<close>, \<open>addCheckIn\<close>, \<open>addSubItem\<close>, \<open>toggleSubItem\<close>, \<open>reorderSubItems\<close>,
    \<open>setSubViewType\<close>, \<open>addSubStage\<close>, \<open>reorderSubStages\<close>, \<open>addSubSwimlane\<close>; for
    \<open>deleteItem\<close> an identifier that also no item lists in \<open>dependsOn\<close>, \<open>enables\<close> or
    \<open>outputIds\<close>; for \<open>addDependency\<close> both identifiers);
  \<^item> a swimlane identifier that no swimlane has (\<open>updateSwimlane\<close>; for \<open>deleteSwimlane\<close>
    one that also no item has as \<open>swimlaneId\<close>);
  \<^item> the identifier of a link, check-in, sub-item, sub-stage or sub-swimlane that the
    addressed item does not have, the item existing or not (\<open>removeLink\<close>,
    \<open>toggleCheckIn\<close>, \<open>removeCheckIn\<close>, \<open>updateSubItem\<close>, \<open>deleteSubItem\<close>,
    \<open>updateSubStage\<close>, \<open>updateSubSwimlane\<close>; for \<open>deleteSubStage\<close> and
    \<open>deleteSubSwimlane\<close> one that also no sub-item of the item carries);
  \<^item> for \<open>removeDependency\<close>, a pair of which one identifier is unknown and which is
    recorded on neither side.
\<close>

theorem unknown_id_only_stamps:
  assumes "data st = Some d" and "refersToNothing a d"
  shows "perform a st = st\<lparr>data := Some (d\<lparr>lastUpdated := nowOf a\<rparr>)\<rparr>"
proof (cases a)
  case (UpdateSwimlane sid u now)
  have "map (\<lambda>s. if swimlane_id s = sid then spreadSwimlane s u else s) (swimlanes d) = swimlanes d"
    using assms(2) UpdateSwimlane by (intro map_unchanged) (auto simp: swimlaneIds_def)
  then show ?thesis using assms UpdateSwimlane
    by (simp add: updateSwimlane_def whenData_def)
next
  case (DeleteSwimlane sid now)
  have "filter (\<lambda>s. swimlane_id s \<noteq> sid) (swimlanes d) = swimlanes d"
    "filter (\<lambda>i. swimlaneId i \<noteq> sid) (items d) = items d"
    using assms(2) DeleteSwimlane by (auto intro!: filter_unchanged simp: swimlaneIds_def)
  then show ?thesis using assms DeleteSwimlane
    by (simp add: deleteSwimlane_def whenData_def)
next
  case (DeleteItem iid now)
  have f: "filter (\<lambda>i. item_id i \<noteq> iid) (items d) = items d"
    using assms(2) DeleteItem by (auto intro!: filter_unchanged simp: itemIds_def)
  have "map (\<lambda>i. i\<lparr>dependsOn := map_option (filter (\<lambda>x. x \<noteq> iid)) (dependsOn i),
                    enables := map_option (filter (\<lambda>e. e \<noteq> iid)) (enables i),
                    outputIds := map_option (filter (\<lambda>x. x \<noteq> iid)) (outputIds i)\<rparr>) (items d)
        = items d"
  proof (rule map_unchanged)
    fix x assume "x \<in> set (items d)"
    with assms(2) DeleteItem have
      "iid \<notin> set (orEmpty (dependsOn x))" "iid \<notin> set (orEmpty (enables x))"
      "iid \<notin> set (orEmpty (outputIds x))"
      by (auto simp: unreferenced_def list_all_iff)
    then have "map_option (filter (\<lambda>x. x \<noteq> iid)) (dependsOn x) = dependsOn x"
      "map_option (filter (\<lambda>x. x \<noteq> iid)) (enables x) = enables x"
      "map_option (filter (\<lambda>x. x \<noteq> iid)) (outputIds x) = outputIds x"
      by (simp_all add: scrub_unchanged)
    then show "x\<lparr>dependsOn := map_option (filter (\<lambda>x. x \<noteq> iid)) (dependsOn x),
                  enables := map_option (filter (\<lambda>e. e \<noteq> iid)) (enables x),
                  outputIds := map_option (filter (\<lambda>x. x \<noteq> iid)) (outputIds x)\<rparr> = x"
      by simp
  qed
  then show ?thesis using assms DeleteItem f
    by (simp add: deleteItem_def whenData_def Let_def)
next
  case (AddDependency f t now)
  have "map (addDependencyBody f t) (items d) = items d"
    using assms(2) AddDependency
    by (intro map_unchanged) (auto simp: addDependencyBody_def itemIds_def)
  then show ?thesis using assms AddDependency
    by (simp add: addDependency_def whenData_def)
next
  case (RemoveDependency f t now)
  have "removeDependencyBody f t x = x" if x: "x \<in> set (items d)" for x
  proof -
    have "item_id x = f \<Longrightarrow> t \<notin> set (orEmpty (dependsOn x))"
      "item_id x = t \<Longrightarrow> f \<notin> set (orEmpty (enables x))"
      using assms(2) RemoveDependency x by (auto dest: everyItemD)
    then show ?thesis
      by (auto simp: removeDependencyBody_def scrub_unchanged)
  qed
  then have "map (removeDependencyBody f t) (items d) = items d"
    by (rule map_unchanged)
  then show ?thesis using assms RemoveDependency
    by (simp add: removeDependency_def whenData_def)
next
  case (RemoveLink iid lid now)
  show ?thesis
    unfolding RemoveLink perform.simps nowOf.simps removeLink_def
    by (rule whenData_items_unchanged [OF assms(1)])
       (use assms(2) RemoveLink in \<open>auto dest!: everyItemD simp: remove_unknown\<close>)
next
  case (ToggleCheckIn iid cid now)
  show ?thesis
    unfolding ToggleCheckIn perform.simps nowOf.simps toggleCheckIn_def
    by (rule whenData_items_unchanged [OF assms(1)])
       (use assms(2) ToggleCheckIn in \<open>auto dest!: everyItemD simp: update_unknown\<close>)
next
  case (RemoveCheckIn iid cid now)
  show ?thesis
    unfolding RemoveCheckIn perform.simps nowOf.simps removeCheckIn_def
    by (rule whenData_items_unchanged [OF assms(1)])
       (use assms(2) RemoveCheckIn in \<open>auto dest!: everyItemD simp: remove_unknown\<close>)
next
  case (UpdateSubItem iid sid u now)
  show ?thesis
    unfolding UpdateSubItem perform.simps nowOf.simps updateSubItem_def
    by (rule whenData_items_unchanged [OF assms(1)])
       (use assms(2) UpdateSubItem in \<open>auto dest!: everyItemD simp: update_unknown\<close>)
next
  case (DeleteSubItem iid sid now)
  show ?thesis
    unfolding DeleteSubItem perform.simps nowOf.simps deleteSubItem_def
    by (rule whenData_items_unchanged [OF assms(1)])
       (use assms(2) DeleteSubItem in \<open>auto dest!: everyItemD simp: remove_unknown\<close>)
next
  case (UpdateSubStage iid sid u now)
  have "(case subItemConfig x of None \<Rightarrow> x
         | Some config \<Rightarrow>
            (case customStages config of None \<Rightarrow> x
             | Some stages \<Rightarrow>
                 if item_id x \<noteq> iid then x
                 else x\<lparr>subItemConfig :=
                          Some (config\<lparr>customStages :=
                            Some (map (\<lambda>s. if stage_id s = sid then spreadSubStage s u else s)
                                    stages)\<rparr>)\<rparr>)) = x"
    if x: "x \<in> set (items d)" for x
  proof (cases "item_id x = iid")
    case True
    with assms(2) UpdateSubStage x
    have "sid \<notin> set (map stage_id (orEmpty (customStagesOf x)))"
      by (auto dest: everyItemD)
    then have "map (\<lambda>s. if stage_id s = sid then spreadSubStage s u else s) stages = stages"
      if "customStagesOf x = Some stages" for stages
      using that by (auto simp: orEmpty_def intro!: map_unchanged)
    then show ?thesis
      by (auto simp: customStagesOf_def split: option.splits)
  qed (simp split: option.splits)
  then show ?thesis
    unfolding UpdateSubStage perform.simps nowOf.simps updateSubStage_def
    by (intro whenData_items_unchanged [OF assms(1)])
next
  case (DeleteSubStage iid sid now)
  have "(case subItemConfig x of None \<Rightarrow> x
         | Some config \<Rightarrow>
            (case customStages config of None \<Rightarrow> x
             | Some stages \<Rightarrow>
                 if item_id x \<noteq> iid then x
                 else x\<lparr>subItemConfig :=
                          Some (config\<lparr>customStages :=
                            Some (filter (\<lambda>s. stage_id s \<noteq> sid) stages)\<rparr>),
                        subItems :=
                          map_option
                            (map (\<lambda>sub. if subStageId sub = Some sid
                                          then sub\<lparr>subStageId := firstStageId x\<rparr>
                                          else sub))
                            (subItems x)\<rparr>)) = x"
    if x: "x \<in> set (items d)" for x
  proof (cases "item_id x = iid")
    case True
    with assms(2) DeleteSubStage x
    have "sid \<notin> set (map stage_id (orEmpty (customStagesOf x)))"
      "Some sid \<notin> set (map subStageId (orEmpty (subItems x)))"
      by (auto dest: everyItemD)
    then have "filter (\<lambda>s. stage_id s \<noteq> sid) stages = stages"
      and "map_option (map (\<lambda>sub. if subStageId sub = Some sid
                                      then sub\<lparr>subStageId := firstStageId x\<rparr> else sub))
             (subItems x) = subItems x"
      if "customStagesOf x = Some stages" for stages
      using that by (auto simp: orEmpty_def update_unknown intro!: filter_unchanged)
    then show ?thesis
      by (auto simp: customStagesOf_def split: option.splits)
  qed (simp split: option.splits)
  then show ?thesis
    unfolding DeleteSubStage perform.simps nowOf.simps deleteSubStage_def
    by (intro whenData_items_unchanged [OF assms(1)])
next
  case (ReorderSubStages iid ids now)
  show ?thesis
    unfolding ReorderSubStages perform.simps nowOf.simps reorderSubStages_def
    by (rule whenData_items_unchanged [OF assms(1)])
       (use assms(2) ReorderSubStages in \<open>auto simp: itemIds_def split: option.splits\<close>)
next
  case (UpdateSubSwimlane iid sid u now)
  have "(case subItemConfig x of None \<Rightarrow> x
         | Some config \<Rightarrow>
            (case customSwimlanes config of None \<Rightarrow> x
             | Some lanes \<Rightarrow>
                 if item_id x \<noteq> iid then x
                 else x\<lparr>subItemConfig :=
                          Some (config\<lparr>customSwimlanes :=
                            Some (map (\<lambda>s. if subswim_id s = sid then spreadSubSwimlane s u else s)
                                    lanes)\<rparr>)\<rparr>)) = x"
    if x: "x \<in> set (items d)" for x
  proof (cases "item_id x = iid")
    case True
    with assms(2) UpdateSubSwimlane x
    have "sid \<notin> set (map subswim_id (orEmpty (customSwimlanesOf x)))"
      by (auto dest: everyItemD)
    then have "map (\<lambda>s. if subswim_id s = sid then spreadSubSwimlane s u else s) lanes = lanes"
      if "customSwimlanesOf x = Some lanes" for lanes
      using that by (auto simp: orEmpty_def intro!: map_unchanged)
    then show ?thesis
      by (auto simp: customSwimlanesOf_def split: option.splits)
  qed (simp split: option.splits)
  then show ?thesis
    unfolding UpdateSubSwimlane perform.simps nowOf.simps updateSubSwimlane_def
    by (intro whenData_items_unchanged [OF assms(1)])
next
  case (DeleteSubSwimlane iid sid now)
  have "(case subItemConfig x of None \<Rightarrow> x
         | Some config \<Rightarrow>
            (case customSwimlanes config of None \<Rightarrow> x
             | Some lanes \<Rightarrow>
                 if item_id x \<noteq> iid then x
                 else x\<lparr>subItemConfig :=
                          Some (config\<lparr>customSwimlanes :=
                            Some (filter (\<lambda>s. subswim_id s \<noteq> sid) lanes)\<rparr>),
                        subItems :=
                          map_option
                            (map (\<lambda>sub. if subSwimlaneId sub = Some sid
                                          then sub\<lparr>subSwimlaneId := None\<rparr>
                                          else sub))
                            (subItems x)\<rparr>)) = x"
    if x: "x \<in> set (items d)" for x
  proof (cases "item_id x = iid")
    case True
    with assms(2) DeleteSubSwimlane x
    have "sid \<notin> set (map subswim_id (orEmpty (customSwimlanesOf x)))"
      "Some sid \<notin> set (map subSwimlaneId (orEmpty (subItems x)))"
      by (auto dest: everyItemD)
    then have "filter (\<lambda>s. subswim_id s \<noteq> sid) lanes = lanes"
      and "map_option (map (\<lambda>sub. if subSwimlaneId sub = Some sid
                                      then sub\<lparr>subSwimlaneId := None\<rparr> else sub))
             (subItems x) = subItems x"
      if "customSwimlanesOf x = Some lanes" for lanes
      using that by (auto simp: orEmpty_def update_unknown intro!: filter_unchanged)
    then show ?thesis
      by (auto simp: customSwimlanesOf_def split: option.splits)
  qed (simp split: option.splits)
  then show ?thesis
    unfolding DeleteSubSwimlane perform.simps nowOf.simps deleteSubSwimlane_def
    by (intro whenData_items_unchanged [OF assms(1)])
qed (use assms in \<open>simp_all add: updateItem_def archiveItem_def unarchiveItem_def addLink_def
   addCheckIn_def addSubItem_def toggleSubItem_def reorderSubItems_def setSubViewType_def
   addSubStage_def addSubSwimlane_def whenData_def Let_def unknown_item
   split: option.splits cong: map_cong\<close>)

theorem unknown_id_only_stamps_witness:
  "perform (ArchiveItem ''zz'' ''t1'' (''n1'', ''t1'')) (exampleStore [kanbanItem])
     = (exampleStore [kanbanItem])\<lparr>data := Some ((exampleData [kanbanItem])\<lparr>lastUpdated := ''t1''\<rparr>)\<rparr>
   \<and> perform (DeleteItem ''zz'' ''t2'') (exampleStore [kanbanItem])
     = (exampleStore [kanbanItem])\<lparr>data := Some ((exampleData [kanbanItem])\<lparr>lastUpdated := ''t2''\<rparr>)\<rparr>
   \<and> perform (UpdateSubItem ''a'' ''zz'' renameSubItem ''t3'') (exampleStore [kanbanItem])
     = (exampleStore [kanbanItem])\<lparr>data := Some ((exampleData [kanbanItem])\<lparr>lastUpdated := ''t3''\<rparr>)\<rparr>
   \<and> perform (RemoveLink ''a'' ''zz'' ''t4'') (exampleStore [kanbanItem])
     = (exampleStore [kanbanItem])\<lparr>data := Some ((exampleData [kanbanItem])\<lparr>lastUpdated := ''t4''\<rparr>)\<rparr>
   \<and> perform (DeleteSubStage ''a'' ''zz'' ''t5'') (exampleStore [kanbanItem])
     = (exampleStore [kanbanItem])\<lparr>data := Some ((exampleData [kanbanItem])\<lparr>lastUpdated := ''t5''\<rparr>)\<rparr>"
proof -
  have d: "data (exampleStore [kanbanItem]) = Some (exampleData [kanbanItem])"
    by (simp add: exampleStore_def)
  have ids: "itemIds (exampleData [kanbanItem]) = {''a''}"
    by (simp add: exampleData_def kanbanItem_def exampleItem_def itemIds_def)
  have r1: "refersToNothing (ArchiveItem ''zz'' ''t1'' (''n1'', ''t1'')) (exampleData [kanbanItem])"
    by (simp add: ids)
  have r2: "refersToNothing (DeleteItem ''zz'' ''t2'') (exampleData [kanbanItem])"
    by (simp add: itemIds_def unreferenced_def exampleData_def kanbanItem_def exampleItem_def
        orEmpty_def)
  have r3: "refersToNothing (UpdateSubItem ''a'' ''zz'' renameSubItem ''t3'') (exampleData [kanbanItem])"
    by (simp add: everyItem_def exampleData_def kanbanItem_def exampleItem_def orEmpty_def)
  have r4: "refersToNothing (RemoveLink ''a'' ''zz'' ''t4'') (exampleData [kanbanItem])"
    by (simp add: everyItem_def exampleData_def kanbanItem_def exampleItem_def orEmpty_def)
  have r5: "refersToNothing (DeleteSubStage ''a'' ''zz'' ''t5'') (exampleData [kanbanItem])"
    by (auto simp: everyItem_def exampleData_def kanbanItem_def exampleItem_def orEmpty_def
        customStagesOf_def defaultSubItemConfig_def DEFAULT_SUB_STAGES_def)
  show ?thesis
    using unknown_id_only_stamps [OF d r1] unknown_id_only_stamps [OF d r2]
      unknown_id_only_stamps [OF d r3] unknown_id_only_stamps [OF d r4]
      unknown_id_only_stamps [OF d r5]
    by simp
qed

text \<open>
  C5, as the claim states it: a call with an identifier that refers to nothing would leave
  the document equal to the one before the call, \<open>lastUpdated\<close> included. After
  \<open>updateItem\<close> with an identifier that no item has the document differs (in
  \<open>lastUpdated\<close>, which every action writes before it looks anything up); and after each
  of the other calls below, whose identifier \<open>zz\<close> (\<open>s1\<close> for the swimlane) nothing has
  either, it differs in more than \<open>lastUpdated\<close>, which is why the amended statement asks
  more of them.
\<close>

theorem unknown_id_counterexample:
  "(''zz'' \<notin> itemIds (exampleData [strayItem])
    \<and> data (perform (UpdateItem ''zz'' noItemUpdates ''t1'' (''n1'', ''t1'') (''n2'', ''t1'')
               (''n3'', ''t1'') (''n4'', ''t1'')) (exampleStore [strayItem]))
        \<noteq> data (exampleStore [strayItem]))
   \<and> (''zz'' \<notin> set (map sub_id (orEmpty (subItems strayItem)))
    \<and> perform (ToggleSubItem ''a'' ''zz'' ''t1'' (''n1'', ''t1'')) (exampleStore [strayItem])
        \<noteq> (exampleStore [strayItem])\<lparr>data := Some ((exampleData [strayItem])\<lparr>lastUpdated := ''t1''\<rparr>)\<rparr>)
   \<and> (''zz'' \<notin> itemIds (exampleData [strayItem])
    \<and> perform (DeleteItem ''zz'' ''t1'') (exampleStore [strayItem])
        \<noteq> (exampleStore [strayItem])\<lparr>data := Some ((exampleData [strayItem])\<lparr>lastUpdated := ''t1''\<rparr>)\<rparr>)
   \<and> (''s1'' \<notin> swimlaneIds (exampleData [strayItem])
    \<and> perform (DeleteSwimlane ''s1'' ''t1'') (exampleStore [strayItem])
        \<noteq> (exampleStore [strayItem])\<lparr>data := Some ((exampleData [strayItem])\<lparr>lastUpdated := ''t1''\<rparr>)\<rparr>)
   \<and> (''zz'' \<notin> itemIds (exampleData [strayItem])
    \<and> perform (AddDependency ''zz'' ''a'' ''t1'') (exampleStore [strayItem])
        \<noteq> (exampleStore [strayItem])\<lparr>data := Some ((exampleData [strayItem])\<lparr>lastUpdated := ''t1''\<rparr>)\<rparr>)
   \<and> (''zz'' \<notin> itemIds (exampleData [strayItem])
    \<and> perform (RemoveDependency ''a'' ''zz'' ''t1'') (exampleStore [strayItem])
        \<noteq> (exampleStore [strayItem])\<lparr>data := Some ((exampleData [strayItem])\<lparr>lastUpdated := ''t1''\<rparr>)\<rparr>)
   \<and> (''zz'' \<notin> set (map sub_id (orEmpty (subItems strayItem)))
    \<and> perform (ReorderSubItems ''a'' [''zz''] ''t1'') (exampleStore [strayItem])
        \<noteq> (exampleStore [strayItem])\<lparr>data := Some ((exampleData [strayItem])\<lparr>lastUpdated := ''t1''\<rparr>)\<rparr>)
   \<and> (''zz'' \<notin> set (map stage_id (orEmpty (customStagesOf strayItem)))
    \<and> perform (ReorderSubStages ''a'' [''zz''] ''t1'') (exampleStore [strayItem])
        \<noteq> (exampleStore [strayItem])\<lparr>data := Some ((exampleData [strayItem])\<lparr>lastUpdated := ''t1''\<rparr>)\<rparr>)
   \<and> (''zz'' \<notin> swimlaneIds ((exampleData [])\<lparr>swimlanes := [laneS1]\<rparr>)
    \<and> perform (ReorderSwimlanes [''zz''] ''t1'')
          ((exampleStore [])\<lparr>data := Some ((exampleData [])\<lparr>swimlanes := [laneS1]\<rparr>)\<rparr>)
        \<noteq> (exampleStore [])\<lparr>data := Some ((exampleData [])\<lparr>swimlanes := [laneS1], lastUpdated := ''t1''\<rparr>)\<rparr>)
   \<and> (''zz'' \<notin> set (map stage_id (orEmpty (customStagesOf strayItem)))
    \<and> perform (DeleteSubStage ''a'' ''zz'' ''t1'') (exampleStore [strayItem])
        \<noteq> (exampleStore [strayItem])\<lparr>data := Some ((exampleData [strayItem])\<lparr>lastUpdated := ''t1''\<rparr>)\<rparr>)
   \<and> (''zz'' \<notin> set (map subswim_id (orEmpty (customSwimlanesOf strayItem)))
    \<and> perform (DeleteSubSwimlane ''a'' ''zz'' ''t1'') (exampleStore [strayItem])
        \<noteq> (exampleStore [strayItem])\<lparr>data := Some ((exampleData [strayItem])\<lparr>lastUpdated := ''t1''\<rparr>)\<rparr>)"
  using stray_updateItem stray_toggleSubItem stray_deleteItem stray_deleteSwimlane
    stray_addDependency stray_removeDependency stray_reorderSubItems stray_reorderSubStages
    stray_reorderSwimlanes stray_deleteSubStage stray_deleteSubSwimlane
  by blast

subsection \<open>Time stamps\<close>

lemma updateItemBody_stamp:
  "itemLastUpdated (updateItemBody i u now f1 f2 f3 f4) = Some now"
  by (simp add: updateItemBody_def Let_def addChangeLog_fields split: option.splits)

text \<open>
  C4, amended. In a loaded document every action that writes the document sets
  \<open>lastUpdated\<close> to the time of the call. The actions \<open>updateItem\<close>, \<open>archiveItem\<close>,
  \<open>unarchiveItem\<close>, \<open>addLink\<close>, \<open>addSubItem\<close> and \<open>toggleSubItem\<close> also set
  \<open>itemLastUpdated\<close> of every item with the given identifier to that time, and
  \<open>addItem\<close> stamps the item it appends. The title and swimlane actions that keep the
  items, and \<open>addDependency\<close>, \<open>removeDependency\<close>, \<open>removeLink\<close>, the check-in
  actions, \<open>updateSubItem\<close>, \<open>deleteSubItem\<close>, \<open>reorderSubItems\<close> and the
  sub-configuration actions leave the \<open>itemLastUpdated\<close> of every item as it was.
\<close>

theorem lastUpdated_and_item_stamps:
  assumes "data st = Some d"
  shows "\<exists>d'. data (perform a st) = Some d' \<and> lastUpdated d' = nowOf a
          \<and> (\<forall>iid. stampsItem a = Some iid \<longrightarrow>
                length (items d') = length (items d)
                \<and> (\<forall>k < length (items d). item_id (items d ! k) = iid \<longrightarrow>
                      itemLastUpdated (items d' ! k) = Some (nowOf a)))
          \<and> (\<forall>item nid now fresh. a = AddItem item nid now fresh \<longrightarrow>
                (\<exists>new. items d' = items d @ [new] \<and> item_id new = nid
                        \<and> itemLastUpdated new = Some now))
          \<and> (keepsItemStamps a \<longrightarrow>
                map item_id (items d') = map item_id (items d)
                \<and> map itemLastUpdated (items d') = map itemLastUpdated (items d))"
proof (cases a)
  case (AddItem item nid now fresh)
  then show ?thesis using assms by (simp add: addItem_def whenData_def Let_def addChangeLog_fields)
next
  case (UpdateItem iid u now f1 f2 f3 f4)
  then show ?thesis using assms by (simp add: updateItem_def whenData_def updateItemBody_stamp)
next
  case (AddSubItem iid ttl nid now fresh)
  then show ?thesis using assms by (simp add: addSubItem_def whenData_def Let_def addChangeLog_fields)
next
  case (ToggleSubItem iid sid now fresh)
  then show ?thesis using assms
    by (simp add: toggleSubItem_def whenData_def Let_def addChangeLog_fields split: option.splits)
next
  case (AddLink iid link nid now fresh)
  then show ?thesis using assms by (simp add: addLink_def whenData_def Let_def addChangeLog_fields)
next
  case (AddDependency f t now)
  then show ?thesis using assms
    by (simp add: addDependency_def whenData_def addDependencyBody_def comp_def)
next
  case (RemoveDependency f t now)
  then show ?thesis using assms
    by (simp add: removeDependency_def whenData_def removeDependencyBody_def comp_def)
qed (use assms in \<open>simp_all add: loadData_def setTitle_def addSwimlane_def updateSwimlane_def
   deleteSwimlane_def reorderSwimlanes_def deleteItem_def archiveItem_def unarchiveItem_def
   removeLink_def addCheckIn_def toggleCheckIn_def removeCheckIn_def
   updateSubItem_def deleteSubItem_def reorderSubItems_def setSubViewType_def
   addSubStage_def updateSubStage_def deleteSubStage_def reorderSubStages_def addSubSwimlane_def
   updateSubSwimlane_def deleteSubSwimlane_def whenData_def Let_def comp_def
   addChangeLog_fields split: option.splits\<close>)


theorem lastUpdated_and_item_stamps_witness:
  "(\<exists>d'. data (perform (ArchiveItem ''a'' ''t1'' (''n1'', ''t1'')) (exampleStore [exampleItem ''a'' ''s1''])) = Some d'
        \<and> lastUpdated d' = ''t1'' \<and> map itemLastUpdated (items d') = [Some ''t1''])
   \<and> (\<exists>d'. data (perform (AddCheckIn ''a'' ''review'' ''n1'' ''t1'') (exampleStore [exampleItem ''a'' ''s1''])) = Some d'
        \<and> lastUpdated d' = ''t1'' \<and> map itemLastUpdated (items d') = [None])"
  using lastUpdated_and_item_stamps [of "exampleStore [exampleItem ''a'' ''s1'']"
      "exampleData [exampleItem ''a'' ''s1'']" "ArchiveItem ''a'' ''t1'' (''n1'', ''t1'')"]
    lastUpdated_and_item_stamps [of "exampleStore [exampleItem ''a'' ''s1'']"
      "exampleData [exampleItem ''a'' ''s1'']" "AddCheckIn ''a'' ''review'' ''n1'' ''t1''"]
  by (auto simp: exampleStore_def exampleData_def exampleItem_def length_Suc_conv)

text \<open>
  C4, as the claim states it: \<open>addDependency\<close> would set \<open>itemLastUpdated\<close> on the
  items it modifies. After \<open>addDependency(a, b)\<close> at time \<open>t1\<close> both items are
  modified and neither carries the stamp \<open>t1\<close>.
\<close>

theorem addDependency_no_item_stamp_counterexample:
  "\<exists>d' i' j'. data (perform (AddDependency ''a'' ''b'' ''t1'')
                    (exampleStore [exampleItem ''a'' ''s1'', exampleItem ''b'' ''s1''])) = Some d'
     \<and> items d' = [i', j']
     \<and> dependsOn i' = Some [''b''] \<and> enables j' = Some [''a'']
     \<and> itemLastUpdated i' \<noteq> Some ''t1'' \<and> itemLastUpdated j' \<noteq> Some ''t1''"
  by (simp add: exampleStore_def exampleData_def exampleItem_def addDependency_def
      addDependencyBody_def whenData_def orEmpty_def)

subsection \<open>The bound of the change log\<close>

lemma sliceLast2_length: "length (sliceLast2 xs) \<le> 2"
  by (simp add: sliceLast2_def)

lemma sliceLast2_snoc: "sliceLast2 (sliceLast2 xs @ [e]) = sliceLast2 (xs @ [e])"
proof -
  have "length xs - Suc (length xs - 2) + (length xs - 2) = length xs - Suc 0"
    by arith
  then show ?thesis
    by (simp add: sliceLast2_def)
qed

lemma sliceLast2_append: "zs \<noteq> [] \<Longrightarrow> sliceLast2 (sliceLast2 xs @ zs) = sliceLast2 (xs @ zs)"
proof (induction zs rule: rev_induct)
  case Nil
  then show ?case by simp
next
  case (snoc z zs)
  show ?case
  proof (cases "zs = []")
    case True
    then show ?thesis by (simp add: sliceLast2_snoc)
  next
    case False
    have "sliceLast2 (sliceLast2 xs @ zs @ [z]) = sliceLast2 (sliceLast2 (sliceLast2 xs @ zs) @ [z])"
      using sliceLast2_snoc [of "sliceLast2 xs @ zs" z] by simp
    also have "\<dots> = sliceLast2 (sliceLast2 (xs @ zs) @ [z])"
      using snoc.IH False by simp
    also have "\<dots> = sliceLast2 (xs @ zs @ [z])"
      using sliceLast2_snoc [of "xs @ zs" z] by simp
    finally show ?thesis by simp
  qed
qed

lemma sliceLast2_long: "2 \<le> length es \<Longrightarrow> sliceLast2 (xs @ es) = sliceLast2 es"
  by (simp add: sliceLast2_def)

lemma appendLog_append: "appendLog (appendLog l es) es' = appendLog l (es @ es')"
  by (simp add: appendLog_def orEmpty_def sliceLast2_append)

lemma addChangeLog_step:
  "changeLog x = appendLog l es \<Longrightarrow>
     changeLog (addChangeLog x ty ds m f) = appendLog l (es @ [entryOf (ty, ds, m, f)])"
proof -
  assume x: "changeLog x = appendLog l es"
  have "changeLog (addChangeLog x ty ds m f) = appendLog (changeLog x) [entryOf (ty, ds, m, f)]"
    by (simp add: addChangeLog_def entryOf_def Let_def appendLog_def)
  then show ?thesis
    by (simp add: x appendLog_append)
qed

lemma appendLog_start: "changeLog x = changeLog i \<Longrightarrow> changeLog x = appendLog (changeLog i) []"
  by (simp add: appendLog_def)

lemma updateItemBody_log:
  assumes "p_changeLog u = None"
  shows "changeLog (updateItemBody i u now f1 f2 f3 f4)
           = appendLog (changeLog i) (logged (UpdateItem (item_id i) u now f1 f2 f3 f4) i)"
proof -
  define x0 where "x0 = (spreadItem i u)\<lparr>itemLastUpdated := Some now\<rparr>"
  define e1 where "e1 = (case readKey (p_item_completed u) of
              None \<Rightarrow> []
            | Some c \<Rightarrow>
                if Some c \<noteq> item_completed i \<and> c
                then [entryOf (Completed, ''Marked as completed'', None, f1)] else [])"
  define x1 where "x1 = (case readKey (p_item_completed u) of
              None \<Rightarrow> x0
            | Some c \<Rightarrow>
                if Some c \<noteq> item_completed i \<and> c
                then addChangeLog x0 Completed ''Marked as completed'' None f1
                else x0)"
  define e2 where "e2 = (if readKey (p_isWin u) = Some True \<and> \<not> truthy (isWin i)
            then [entryOf (MarkedWin, ''Highlighted as a win'', None, f2)] else [])"
  define x2 where "x2 = (if readKey (p_isWin u) = Some True \<and> \<not> truthy (isWin i)
            then addChangeLog x1 MarkedWin ''Highlighted as a win'' None f2
            else x1)"
  define e3 where "e3 = (case p_stage u of
              None \<Rightarrow> []
            | Some s \<Rightarrow>
                if s \<noteq> stage i
                then [entryOf (StageChanged, ''Moved to '' @ stageLabels s,
                        Some \<lparr>fromValue = Some (stageLabels (stage i)),
                              toValue = Some (stageLabels s),
                              linkLabel = None, subItemTitle = None\<rparr>, f3)]
                else [])"
  define x3 where "x3 = (case p_stage u of
              None \<Rightarrow> x2
            | Some s \<Rightarrow>
                if s \<noteq> stage i
                then addChangeLog x2 StageChanged (''Moved to '' @ stageLabels s)
                       (Some \<lparr>fromValue = Some (stageLabels (stage i)),
                              toValue = Some (stageLabels s),
                              linkLabel = None, subItemTitle = None\<rparr>) f3
                else x2)"
  define e4 where "e4 = (case readKey (p_blockerStatus u) of
              None \<Rightarrow> []
            | Some b \<Rightarrow>
                if Some b \<noteq> blockerStatus i
                then [entryOf (StatusChanged, ''Status changed to '' @ blockerStatusText b,
                        Some \<lparr>fromValue = map_option blockerStatusText (blockerStatus i),
                              toValue = Some (blockerStatusText b),
                              linkLabel = None, subItemTitle = None\<rparr>, f4)]
                else [])"
  define x4 where "x4 = (case readKey (p_blockerStatus u) of
              None \<Rightarrow> x3
            | Some b \<Rightarrow>
                if Some b \<noteq> blockerStatus i
                then addChangeLog x3 StatusChanged
                       (''Status changed to '' @ blockerStatusText b)
                       (Some \<lparr>fromValue = map_option blockerStatusText (blockerStatus i),
                              toValue = Some (blockerStatusText b),
                              linkLabel = None, subItemTitle = None\<rparr>) f4
                else x3)"
  have c0: "changeLog x0 = appendLog (changeLog i) []"
    using assms by (simp add: x0_def spreadItem_def spread_def appendLog_def)
  have c1: "changeLog x1 = appendLog (changeLog i) e1"
    unfolding x1_def e1_def
    using addChangeLog_step [OF c0] c0 by (auto split: option.splits)
  have c2: "changeLog x2 = appendLog (changeLog i) (e1 @ e2)"
    unfolding x2_def e2_def
    using addChangeLog_step [OF c1] c1 by simp
  have c3: "changeLog x3 = appendLog (changeLog i) ((e1 @ e2) @ e3)"
    unfolding x3_def e3_def
    using addChangeLog_step [OF c2] c2 by (auto split: option.splits)
  have c4: "changeLog x4 = appendLog (changeLog i) (((e1 @ e2) @ e3) @ e4)"
    unfolding x4_def e4_def
    using addChangeLog_step [OF c3] c3 by (auto split: option.splits)
  have "updateItemBody i u now f1 f2 f3 f4 = x4"
    unfolding updateItemBody_def Let_def x4_def x3_def x2_def x1_def x0_def by (rule refl)
  moreover have "logged (UpdateItem (item_id i) u now f1 f2 f3 f4) i = ((e1 @ e2) @ e3) @ e4"
    by (simp add: e1_def e2_def e3_def e4_def)
  ultimately show ?thesis
    using c4 by simp
qed

lemma filter_nth_kept:
  assumes "k < length xs" and "P (xs ! k)"
  shows "length (filter P (take k xs)) < length (filter P xs)
         \<and> filter P xs ! length (filter P (take k xs)) = xs ! k"
proof -
  have "xs = take k xs @ xs ! k # drop (Suc k) xs"
    using assms(1) by (simp add: id_take_nth_drop)
  then have "filter P xs = filter P (take k xs) @ xs ! k # filter P (drop (Suc k) xs)"
    using assms(2) by (metis filter.simps(2) filter_append)
  then show ?thesis
    by (simp add: nth_append)
qed

lemma follow_step:
  assumes "data st = Some d" and "k < length (items d)"
    and "\<not> overwritesLog a (items d ! k)" and "position a d k = Some k'"
  shows "\<exists>d'. data (perform a st) = Some d' \<and> k' < length (items d')
           \<and> changeLog (items d' ! k') = appendLog (changeLog (items d ! k)) (logged a (items d ! k))"
proof (cases a)
  case (LoadData d0 now)
  then show ?thesis using assms by simp
next
  case (UpdateItem iid u now f1 f2 f3 f4)
  then show ?thesis using assms
    by (auto simp: updateItem_def whenData_def updateItemBody_log appendLog_def)
next
  case (DeleteItem iid now)
  with assms have P: "item_id (items d ! k) \<noteq> iid"
    and k': "k' = length (filter (\<lambda>i. item_id i \<noteq> iid) (take k (items d)))"
    by (auto split: if_splits)
  from filter_nth_kept [of k "items d" "\<lambda>i. item_id i \<noteq> iid"] assms(2) P
  show ?thesis using assms(1) DeleteItem k'
    by (simp add: deleteItem_def whenData_def Let_def appendLog_def)
next
  case (DeleteSwimlane sid now)
  with assms have P: "swimlaneId (items d ! k) \<noteq> sid"
    and k': "k' = length (filter (\<lambda>i. swimlaneId i \<noteq> sid) (take k (items d)))"
    by (auto split: if_splits)
  from filter_nth_kept [of k "items d" "\<lambda>i. swimlaneId i \<noteq> sid"] assms(2) P
  show ?thesis using assms(1) DeleteSwimlane k'
    by (simp add: deleteSwimlane_def whenData_def Let_def appendLog_def)
next
  case (AddItem item nid now fresh)
  then show ?thesis using assms
    by (simp add: addItem_def whenData_def Let_def appendLog_def nth_append)
next
  case (ToggleSubItem iid sid now fresh)
  then show ?thesis using assms
    by (auto simp: toggleSubItem_def whenData_def Let_def appendLog_def addChangeLog_def
        entryOf_def split: option.splits)
qed (use assms in \<open>auto simp: setTitle_def addSwimlane_def updateSwimlane_def reorderSwimlanes_def
   archiveItem_def unarchiveItem_def addDependency_def addDependencyBody_def
   removeDependency_def removeDependencyBody_def addLink_def
   removeLink_def addCheckIn_def toggleCheckIn_def removeCheckIn_def addSubItem_def
   updateSubItem_def deleteSubItem_def reorderSubItems_def setSubViewType_def
   addSubStage_def updateSubStage_def deleteSubStage_def reorderSubStages_def addSubSwimlane_def
   updateSubSwimlane_def deleteSubSwimlane_def whenData_def Let_def appendLog_def
   addChangeLog_def entryOf_def
   split: option.splits\<close>)

lemma follow_log:
  "data st = Some d \<Longrightarrow> k < length (items d) \<Longrightarrow> follow acts st k = Some (k', es) \<Longrightarrow>
     \<exists>d'. data (performAll acts st) = Some d' \<and> k' < length (items d')
          \<and> changeLog (items d' ! k') = appendLog (changeLog (items d ! k)) es"
proof (induction acts arbitrary: st d k es)
  case Nil
  then show ?case by (simp add: performAll_def appendLog_def)
next
  case (Cons a acts)
  from Cons.prems have no: "\<not> overwritesLog a (items d ! k)"
    by (auto split: if_splits)
  from Cons.prems no obtain k1 es1 where
    pos: "position a d k = Some k1"
    and rest: "follow acts (perform a st) k1 = Some (k', es1)"
    and es: "es = logged a (items d ! k) @ es1"
    by (auto split: option.splits)
  from follow_step [OF Cons.prems(1,2) no pos] obtain d1 where
    d1: "data (perform a st) = Some d1" and k1: "k1 < length (items d1)"
    and log1: "changeLog (items d1 ! k1)
                 = appendLog (changeLog (items d ! k)) (logged a (items d ! k))"
    by blast
  from Cons.IH [OF d1 k1 rest] obtain d' where
    "data (performAll acts (perform a st)) = Some d'" "k' < length (items d')"
    "changeLog (items d' ! k') = appendLog (changeLog (items d1 ! k1)) es1"
    by blast
  then show ?case
    by (simp add: performAll_def log1 es appendLog_append)
qed


lemma addItem_log:
  assumes "data st = Some d"
  shows "\<exists>d1. data (perform (AddItem item nid now fresh) st) = Some d1
           \<and> length (items d) < length (items d1)
           \<and> changeLog (items d1 ! length (items d))
               = appendLog (changeLog item) [entryOf (Created, ''Item created'', None, fresh)]"
  using assms
  by (simp add: addItem_def whenData_def Let_def addChangeLog_def entryOf_def appendLog_def)

lemma appendLog_length:
  "es \<noteq> [] \<or> length (orEmpty l) \<le> 2 \<Longrightarrow> length (orEmpty (appendLog l es)) \<le> 2"
  by (auto simp: appendLog_def orEmpty_def sliceLast2_length)

lemma appendLog_long: "2 \<le> length es \<Longrightarrow> appendLog l es = Some (sliceLast2 es)"
  by (auto simp: appendLog_def sliceLast2_long)

text \<open>
  C2, amended. Take an item of the loaded document, at index \<open>k\<close> of \<open>items\<close>, and any
  sequence of store actions through which the item lasts (\<open>follow\<close>): no \<open>loadData\<close>, no
  \<open>deleteItem\<close> of the item, no \<open>deleteSwimlane\<close> of its swimlane, no \<open>updateItem\<close> of the
  item with a \<open>changeLog\<close> key. Let \<open>es\<close> be the entries the actions appended to its log, in
  order. Then the item is in the document after the sequence and its change log is the
  one before when nothing was appended, and otherwise the last two of the old entries
  followed by \<open>es\<close>. So the log has at most two entries as soon as one entry was appended
  or when it had at most two before, and it is exactly the last two entries of \<open>es\<close> when
  at least two were appended.

  For an item made by \<open>addItem\<close> and followed from there, the log is the last two of: the
  log passed to \<open>addItem\<close>, the \<open>created\<close> entry, \<open>es\<close>. It has at most two entries at every
  point, and it is the last two of the \<open>created\<close> entry and \<open>es\<close> once a further entry was
  appended.
\<close>

theorem changeLog_bound:
  "(data st = Some d \<and> k < length (items d) \<and> follow acts st k = Some (k', es) \<longrightarrow>
      (\<exists>d'. data (performAll acts st) = Some d' \<and> k' < length (items d')
         \<and> changeLog (items d' ! k') = appendLog (changeLog (items d ! k)) es
         \<and> (es = [] \<longrightarrow> changeLog (items d' ! k') = changeLog (items d ! k))
         \<and> (es \<noteq> [] \<or> logLength (items d ! k) \<le> 2 \<longrightarrow> logLength (items d' ! k') \<le> 2)
         \<and> (2 \<le> length es \<longrightarrow> changeLog (items d' ! k') = Some (sliceLast2 es))))
   \<and> (data st = Some d
       \<and> follow acts (perform (AddItem item nid now fresh) st) (length (items d)) = Some (k', es) \<longrightarrow>
      (\<exists>d'. data (performAll (AddItem item nid now fresh # acts) st) = Some d'
         \<and> k' < length (items d')
         \<and> changeLog (items d' ! k')
             = Some (sliceLast2 (orEmpty (changeLog item)
                       @ entryOf (Created, ''Item created'', None, fresh) # es))
         \<and> logLength (items d' ! k') \<le> 2
         \<and> (es \<noteq> [] \<longrightarrow>
               changeLog (items d' ! k')
                 = Some (sliceLast2 (entryOf (Created, ''Item created'', None, fresh) # es)))))"
proof (intro conjI impI)
  assume a: "data st = Some d \<and> k < length (items d) \<and> follow acts st k = Some (k', es)"
  then obtain d' where d': "data (performAll acts st) = Some d'" "k' < length (items d')"
    and log: "changeLog (items d' ! k') = appendLog (changeLog (items d ! k)) es"
    using follow_log [of st d k acts k' es] by blast
  have "es = [] \<longrightarrow> changeLog (items d' ! k') = changeLog (items d ! k)"
    by (simp add: log appendLog_def)
  moreover have "es \<noteq> [] \<or> logLength (items d ! k) \<le> 2 \<longrightarrow> logLength (items d' ! k') \<le> 2"
    unfolding logLength_def log using appendLog_length [of es "changeLog (items d ! k)"] by blast
  moreover have "2 \<le> length es \<longrightarrow> changeLog (items d' ! k') = Some (sliceLast2 es)"
    by (simp add: log appendLog_long)
  ultimately show "\<exists>d'. data (performAll acts st) = Some d' \<and> k' < length (items d')
         \<and> changeLog (items d' ! k') = appendLog (changeLog (items d ! k)) es
         \<and> (es = [] \<longrightarrow> changeLog (items d' ! k') = changeLog (items d ! k))
         \<and> (es \<noteq> [] \<or> logLength (items d ! k) \<le> 2 \<longrightarrow> logLength (items d' ! k') \<le> 2)
         \<and> (2 \<le> length es \<longrightarrow> changeLog (items d' ! k') = Some (sliceLast2 es))"
    using d' log by blast
next
  let ?c = "entryOf (Created, ''Item created'', None, fresh)"
  assume b: "data st = Some d
       \<and> follow acts (perform (AddItem item nid now fresh) st) (length (items d)) = Some (k', es)"
  from addItem_log [of st d item nid now fresh] b obtain d1 where
    d1: "data (perform (AddItem item nid now fresh) st) = Some d1"
    and k1: "length (items d) < length (items d1)"
    and log1: "changeLog (items d1 ! length (items d)) = appendLog (changeLog item) [?c]"
    by blast
  from follow_log [OF d1 k1] b obtain d' where
    d': "data (performAll acts (perform (AddItem item nid now fresh) st)) = Some d'"
      "k' < length (items d')"
    and log: "changeLog (items d' ! k')
                = appendLog (changeLog (items d1 ! length (items d))) es"
    by blast
  have all: "changeLog (items d' ! k') = Some (sliceLast2 (orEmpty (changeLog item) @ ?c # es))"
    by (simp add: log log1 appendLog_append) (simp add: appendLog_def)
  have len: "logLength (items d' ! k') \<le> 2"
    by (simp add: logLength_def all orEmpty_def sliceLast2_length)
  have two: "es \<noteq> [] \<longrightarrow> changeLog (items d' ! k') = Some (sliceLast2 (?c # es))"
  proof
    assume "es \<noteq> []"
    then have "2 \<le> length (?c # es)"
      by (cases es) simp_all
    from sliceLast2_long [OF this, of "orEmpty (changeLog item)"] all
    show "changeLog (items d' ! k') = Some (sliceLast2 (?c # es))"
      by simp
  qed
  have "performAll (AddItem item nid now fresh # acts) st
          = performAll acts (perform (AddItem item nid now fresh) st)"
    by (simp add: performAll_def)
  with d' all len two
  show "\<exists>d'. data (performAll (AddItem item nid now fresh # acts) st) = Some d'
         \<and> k' < length (items d')
         \<and> changeLog (items d' ! k') = Some (sliceLast2 (orEmpty (changeLog item) @ ?c # es))
         \<and> logLength (items d' ! k') \<le> 2
         \<and> (es \<noteq> [] \<longrightarrow> changeLog (items d' ! k') = Some (sliceLast2 (?c # es)))"
    by auto
qed

lemma trackedFollow:
  "follow trackedActions (exampleStore [exampleItem ''b'' ''s2'', exampleItem ''a'' ''s1'']) 1
     = Some (0, [entryOf (Archived, ''Archived'', None, (''e1'', ''t1'')),
                 entryOf (Unarchived, ''Restored from archive'', None, (''e2'', ''t4'')),
                 entryOf (StageChanged, ''Moved to Long-term'',
                    Some \<lparr>fromValue = Some ''Recent'', toValue = Some ''Long-term'',
                          linkLabel = None, subItemTitle = None\<rparr>, (''e5'', ''t5''))])"
  by (simp add: trackedActions_def exampleStore_def exampleData_def exampleItem_def
      archiveItem_def deleteItem_def addCheckIn_def unarchiveItem_def updateItem_def
      updateItemBody_def whenData_def Let_def addChangeLog_def sliceLast2_def orEmpty_def
      spreadItem_def spread_def readKey_def noItemUpdates_def truthy_def stageLabels_def)

lemma createdFollow:
  "follow [ArchiveItem ''n1'' ''t2'' (''e2'', ''t2'')]
      (perform (AddItem (exampleItem ''new'' ''s1'') ''n1'' ''t1'' (''e1'', ''t1''))
         (exampleStore [exampleItem ''a'' ''s1''])) 1
     = Some (1, [entryOf (Archived, ''Archived'', None, (''e2'', ''t2''))])"
  by (simp add: exampleStore_def exampleData_def exampleItem_def addItem_def
      archiveItem_def whenData_def Let_def addChangeLog_def sliceLast2_def orEmpty_def)

theorem changeLog_bound_witness:
  "(\<exists>d'. data (performAll trackedActions
              (exampleStore [exampleItem ''b'' ''s2'', exampleItem ''a'' ''s1''])) = Some d'
      \<and> changeLog (items d' ! 0)
          = Some [entryOf (Unarchived, ''Restored from archive'', None, (''e2'', ''t4'')),
                  entryOf (StageChanged, ''Moved to Long-term'',
                    Some \<lparr>fromValue = Some ''Recent'', toValue = Some ''Long-term'',
                          linkLabel = None, subItemTitle = None\<rparr>, (''e5'', ''t5''))])
   \<and> (\<exists>d'. data (performAll [AddItem (exampleItem ''new'' ''s1'') ''n1'' ''t1'' (''e1'', ''t1''),
                               ArchiveItem ''n1'' ''t2'' (''e2'', ''t2'')]
              (exampleStore [exampleItem ''a'' ''s1''])) = Some d'
      \<and> changeLog (items d' ! 1)
          = Some [entryOf (Created, ''Item created'', None, (''e1'', ''t1'')),
                  entryOf (Archived, ''Archived'', None, (''e2'', ''t2''))])"
proof -
  let ?st = "exampleStore [exampleItem ''b'' ''s2'', exampleItem ''a'' ''s1'']"
  let ?d = "exampleData [exampleItem ''b'' ''s2'', exampleItem ''a'' ''s1'']"
  let ?es = "[entryOf (Archived, ''Archived'', None, (''e1'', ''t1'')),
        entryOf (Unarchived, ''Restored from archive'', None, (''e2'', ''t4'')),
        entryOf (StageChanged, ''Moved to Long-term'',
           Some \<lparr>fromValue = Some ''Recent'', toValue = Some ''Long-term'',
                 linkLabel = None, subItemTitle = None\<rparr>, (''e5'', ''t5''))]"
  let ?st2 = "exampleStore [exampleItem ''a'' ''s1'']"
  let ?d2 = "exampleData [exampleItem ''a'' ''s1'']"
  have h1: "data ?st = Some ?d \<and> 1 < length (items ?d) \<and> follow trackedActions ?st 1 = Some (0, ?es)"
    using trackedFollow by (simp add: exampleStore_def exampleData_def)
  have h2: "data ?st2 = Some ?d2
     \<and> follow [ArchiveItem ''n1'' ''t2'' (''e2'', ''t2'')]
          (perform (AddItem (exampleItem ''new'' ''s1'') ''n1'' ''t1'' (''e1'', ''t1'')) ?st2)
          (length (items ?d2))
        = Some (1, [entryOf (Archived, ''Archived'', None, (''e2'', ''t2''))])"
    using createdFollow by (simp add: exampleStore_def exampleData_def)
  from changeLog_bound [of ?st ?d 1 trackedActions 0 ?es, THEN conjunct1, rule_format, OF h1]
  obtain d' where "data (performAll trackedActions ?st) = Some d'"
    and "2 \<le> length ?es \<longrightarrow> changeLog (items d' ! 0) = Some (sliceLast2 ?es)"
    by blast
  then have first: "\<exists>d'. data (performAll trackedActions ?st) = Some d'
      \<and> changeLog (items d' ! 0)
          = Some [entryOf (Unarchived, ''Restored from archive'', None, (''e2'', ''t4'')),
                  entryOf (StageChanged, ''Moved to Long-term'',
                    Some \<lparr>fromValue = Some ''Recent'', toValue = Some ''Long-term'',
                          linkLabel = None, subItemTitle = None\<rparr>, (''e5'', ''t5''))]"
    by (simp add: sliceLast2_def)
  from changeLog_bound [of ?st2 ?d2 _ "[ArchiveItem ''n1'' ''t2'' (''e2'', ''t2'')]" 1
      "[entryOf (Archived, ''Archived'', None, (''e2'', ''t2''))]"
      "exampleItem ''new'' ''s1''" "''n1''" "''t1''" "(''e1'', ''t1'')",
      THEN conjunct2, rule_format, OF h2]
  obtain d'' where "data (performAll [AddItem (exampleItem ''new'' ''s1'') ''n1'' ''t1'' (''e1'', ''t1''),
                               ArchiveItem ''n1'' ''t2'' (''e2'', ''t2'')] ?st2) = Some d''"
    and "changeLog (items d'' ! 1)
           = Some (sliceLast2 (orEmpty (changeLog (exampleItem ''new'' ''s1''))
                     @ entryOf (Created, ''Item created'', None, (''e1'', ''t1''))
                       # [entryOf (Archived, ''Archived'', None, (''e2'', ''t2''))]))"
    by blast
  then have second: "\<exists>d'. data (performAll [AddItem (exampleItem ''new'' ''s1'') ''n1'' ''t1'' (''e1'', ''t1''),
                               ArchiveItem ''n1'' ''t2'' (''e2'', ''t2'')] ?st2) = Some d'
      \<and> changeLog (items d' ! 1)
          = Some [entryOf (Created, ''Item created'', None, (''e1'', ''t1'')),
                  entryOf (Archived, ''Archived'', None, (''e2'', ''t2''))]"
    by (simp add: sliceLast2_def orEmpty_def exampleItem_def)
  from first second show ?thesis
    by blast
qed

text \<open>
  C2, as the claim states it: the change log of every item would have at most two entries
  after every mutation. The log is cut only when an entry is appended. An item that came
  with three entries (\<open>loadData\<close> accepts any document) still has three after
  \<open>addCheckIn\<close>, and \<open>updateItem\<close> with a \<open>changeLog\<close> key of three entries and no
  tracked transition stores all three.
\<close>

theorem changeLog_bound_counterexample:
  "(\<exists>d' i'. data (perform (AddCheckIn ''a'' ''review'' ''n1'' ''t9'') (exampleStore [longLogItem])) = Some d'
       \<and> items d' = [i'] \<and> logLength i' = 3)
   \<and> (\<exists>d' i'. data (perform (UpdateItem ''a''
                 (noItemUpdates\<lparr>p_changeLog := Some (changeLog longLogItem)\<rparr>)
                 ''t9'' (''n1'', ''t9'') (''n2'', ''t9'') (''n3'', ''t9'') (''n4'', ''t9''))
               (exampleStore [exampleItem ''a'' ''s1''])) = Some d'
       \<and> items d' = [i'] \<and> logLength i' = 3)"
  by (simp add: exampleStore_def exampleData_def longLogItem_def exampleItem_def addCheckIn_def
      whenData_def logLength_def orEmpty_def updateItem_def updateItemBody_def noItemUpdates_def
      spreadItem_def spread_def readKey_def Let_def)

subsection \<open>Filtering across swimlanes\<close>

lemma fold_insert_unless:
  "x \<in> fold (\<lambda>y c. if y \<notin> P then insert y c else c) ys c0 \<longleftrightarrow> x \<in> c0 \<or> (x \<in> set ys \<and> x \<notin> P)"
  by (induction ys arbitrary: c0) auto

lemma connectedOfPrimary_fold:
  "x \<in> fold (\<lambda>item connectedIds.
            fold (\<lambda>enId c. if enId \<notin> P then insert enId c else c) (orEmpty (enables item))
              (fold (\<lambda>depId c. if depId \<notin> P then insert depId c else c)
                 (orEmpty (dependsOn item)) connectedIds)) prim c0
   \<longleftrightarrow> x \<in> c0 \<or> (x \<notin> P \<and> (\<exists>item \<in> set prim. x \<in> set (orEmpty (dependsOn item))
                                                 \<or> x \<in> set (orEmpty (enables item))))"
  by (induction prim arbitrary: c0) (auto simp: fold_insert_unless)

lemma connectedOfPrimary_iff:
  "x \<in> connectedOfPrimary P prim \<longleftrightarrow>
     x \<notin> P \<and> (\<exists>item \<in> set prim. x \<in> set (orEmpty (dependsOn item))
                                  \<or> x \<in> set (orEmpty (enables item)))"
  unfolding connectedOfPrimary_def Let_def by (simp add: connectedOfPrimary_fold)

lemma connectedReverse_iff:
  "x \<in> connectedReverse P xs c0 \<longleftrightarrow>
     x \<in> c0 \<or> (x \<notin> P \<and> (\<exists>i \<in> set xs. item_id i = x
                     \<and> (list_ex (\<lambda>y. y \<in> P) (orEmpty (dependsOn i))
                        \<or> list_ex (\<lambda>y. y \<in> P) (orEmpty (enables i)))))"
  unfolding connectedReverse_def
  by (induction xs arbitrary: c0) (auto simp: Let_def)

lemma filter_eq_single: "distinct xs \<Longrightarrow> x \<in> set xs \<Longrightarrow> filter (\<lambda>s. s = x) xs = [x]"
  by (induction xs) (auto simp: filter_empty_conv)

lemma swimlane_filter_items:
  assumes "data st = Some d"
    and "filters st = defaultFilters\<lparr>filter_swimlanes := sel\<rparr>" and "sel \<noteq> []"
  shows "getFilteredItems st =
    (let nonArchived = filter (\<lambda>i. \<not> truthy (archived i)) (items d);
         primary = filter (\<lambda>i. swimlaneId i \<in> set sel) nonArchived;
         P = set (map item_id primary)
     in filter (\<lambda>i. item_id i \<in> P
                 \<or> item_id i \<in> connectedReverse P nonArchived (connectedOfPrimary P primary))
          nonArchived)"
  using assms
  by (simp add: getFilteredItems_def Let_def defaultFilters_def trim_def)

text \<open>
  C8. The document holds the swimlanes \<open>S1\<close> and \<open>S2\<close> and the items \<open>M1\<close> (in
  \<open>S1\<close>) and \<open>M2\<close> (in \<open>S2\<close>), neither archived, and it may hold other swimlanes and
  other items, none of them in \<open>S2\<close> or linked to \<open>M2\<close>; identifiers are unique. The
  swimlane filter is \<open>[S2]\<close> and every other filter has its default. When \<open>M1\<close> and
  \<open>M2\<close> are linked (as they are when \<open>M2.dependsOn\<close> holds \<open>M1\<close>),
  \<open>getFilteredItems\<close> returns exactly \<open>M1\<close> and \<open>M2\<close>, in document order, and
  \<open>getFilteredSwimlanes\<close> returns exactly \<open>S1\<close> and \<open>S2\<close>, sorted by \<open>order\<close>.
  When they are not linked, \<open>getFilteredItems\<close> returns \<open>M2\<close> alone and
  \<open>getFilteredSwimlanes\<close> returns \<open>S2\<close> alone: \<open>M1\<close> and its swimlane are there
  through the dependency and through nothing else. With the default filters the stage and
  the type of the items play no part (the claim has them as recent milestones, as the
  witness does).
\<close>

theorem cross_swimlane_filter:
  assumes d: "data st = Some d"
    and fs: "filters st = defaultFilters\<lparr>filter_swimlanes := [swimlane_id S2]\<rparr>"
    and uid: "distinct (map item_id (items d))"
    and usid: "distinct (map swimlane_id (swimlanes d))"
    and M1: "M1 \<in> set (items d)" and M2: "M2 \<in> set (items d)"
    and S1: "S1 \<in> set (swimlanes d)" and S2: "S2 \<in> set (swimlanes d)"
    and m1: "swimlaneId M1 = swimlane_id S1" and m2: "swimlaneId M2 = swimlane_id S2"
    and s12: "swimlane_id S1 \<noteq> swimlane_id S2"
    and a1: "\<not> truthy (archived M1)" and a2: "\<not> truthy (archived M2)"
    and others: "\<forall>X \<in> set (items d). X \<noteq> M1 \<longrightarrow> X \<noteq> M2 \<longrightarrow>
                   swimlaneId X \<noteq> swimlane_id S2 \<and> \<not> linked X M2"
  shows "(linked M1 M2 \<longrightarrow>
            getFilteredItems st = filter (\<lambda>i. i = M1 \<or> i = M2) (items d)
          \<and> set (getFilteredItems st) = {M1, M2}
          \<and> getFilteredSwimlanes st
              = sort_key swimlane_order (filter (\<lambda>s. s = S1 \<or> s = S2) (swimlanes d))
          \<and> set (getFilteredSwimlanes st) = {S1, S2}
          \<and> sorted (map swimlane_order (getFilteredSwimlanes st)))
       \<and> (\<not> linked M1 M2 \<longrightarrow>
            getFilteredItems st = filter (\<lambda>i. i = M2) (items d)
          \<and> set (getFilteredItems st) = {M2}
          \<and> getFilteredSwimlanes st = filter (\<lambda>s. s = S2) (swimlanes d)
          \<and> set (getFilteredSwimlanes st) = {S2})"
proof -
  let ?na = "filter (\<lambda>i. \<not> truthy (archived i)) (items d)"
  let ?prim = "filter (\<lambda>i. swimlaneId i \<in> set [swimlane_id S2]) ?na"
  let ?P = "set (map item_id ?prim)"
  let ?C = "connectedReverse ?P ?na (connectedOfPrimary ?P ?prim)"
  have inj: "item_id x = item_id y \<Longrightarrow> x = y" if "x \<in> set (items d)" "y \<in> set (items d)" for x y
    using uid that by (auto simp: distinct_map dest: inj_onD)
  have injS: "swimlane_id x = swimlane_id y \<Longrightarrow> x = y"
    if "x \<in> set (swimlanes d)" "y \<in> set (swimlanes d)" for x y
    using usid that by (auto simp: distinct_map dest: inj_onD)
  have M12: "M1 \<noteq> M2"
  proof
    assume "M1 = M2"
    with m1 m2 s12 show False by simp
  qed
  have only: "x = M2" if "x \<in> set (items d)" "swimlaneId x = swimlane_id S2" for x
  proof (cases "x = M1")
    case True
    with that(2) m1 s12 show ?thesis by simp
  next
    case False
    with others that show ?thesis by blast
  qed
  have prim: "set ?prim = {M2}"
  proof (rule equalityI; rule subsetI)
    fix x assume "x \<in> set ?prim"
    then have "x \<in> set (items d)" "swimlaneId x = swimlane_id S2" by simp_all
    then show "x \<in> {M2}" using only by simp
  next
    fix x assume "x \<in> {M2}"
    then show "x \<in> set ?prim" using M2 a2 m2 by simp
  qed
  have P: "?P = {item_id M2}"
    unfolding set_map prim by simp
  have fi: "getFilteredItems st = filter (\<lambda>i. item_id i \<in> ?P \<or> item_id i \<in> ?C) ?na"
    using swimlane_filter_items [OF d fs] by (simp add: Let_def)
  have inC: "item_id X \<in> ?C \<longleftrightarrow> linked X M2" if X: "X \<in> set (items d)" "X \<noteq> M2" "\<not> truthy (archived X)" for X
  proof -
    have ne: "item_id X \<noteq> item_id M2"
      using inj [OF X(1) M2] X(2) by auto
    have first: "item_id X \<in> connectedOfPrimary ?P ?prim \<longleftrightarrow>
        item_id X \<in> set (orEmpty (dependsOn M2)) \<or> item_id X \<in> set (orEmpty (enables M2))"
      unfolding connectedOfPrimary_iff prim P using ne by auto
    have second: "(\<exists>i \<in> set ?na. item_id i = item_id X
                     \<and> (list_ex (\<lambda>y. y \<in> ?P) (orEmpty (dependsOn i))
                        \<or> list_ex (\<lambda>y. y \<in> ?P) (orEmpty (enables i))))
        \<longleftrightarrow> item_id M2 \<in> set (orEmpty (dependsOn X)) \<or> item_id M2 \<in> set (orEmpty (enables X))"
      (is "?L \<longleftrightarrow> ?R")
    proof
      assume ?L
      then obtain i where i: "i \<in> set (items d)" "item_id i = item_id X"
        "list_ex (\<lambda>y. y \<in> ?P) (orEmpty (dependsOn i)) \<or> list_ex (\<lambda>y. y \<in> ?P) (orEmpty (enables i))"
        by auto
      from inj [OF i(1) X(1)] i(2) have "i = X" by simp
      with i(3) show ?R unfolding P by (auto simp: list_ex_iff)
    next
      assume ?R
      then have "list_ex (\<lambda>y. y \<in> ?P) (orEmpty (dependsOn X)) \<or> list_ex (\<lambda>y. y \<in> ?P) (orEmpty (enables X))"
        unfolding P by (auto simp: list_ex_iff)
      moreover have "X \<in> set ?na" using X by simp
      ultimately show ?L by blast
    qed
    have notP: "item_id X \<notin> ?P"
      unfolding P using ne by simp
    have "item_id X \<in> ?C \<longleftrightarrow>
        item_id X \<in> connectedOfPrimary ?P ?prim
        \<or> (item_id X \<notin> ?P \<and> (\<exists>i \<in> set ?na. item_id i = item_id X
                     \<and> (list_ex (\<lambda>y. y \<in> ?P) (orEmpty (dependsOn i))
                        \<or> list_ex (\<lambda>y. y \<in> ?P) (orEmpty (enables i)))))"
      by (rule connectedReverse_iff)
    then show ?thesis
      unfolding linked_def using first second notP by blast
  qed
  have keep: "(item_id X \<in> ?P \<or> item_id X \<in> ?C) \<longleftrightarrow> X = M2 \<or> (X = M1 \<and> linked M1 M2)"
    if X: "X \<in> set ?na" for X
  proof (cases "X = M2")
    case True
    have "item_id M2 \<in> ?P"
      unfolding P by simp
    with True show ?thesis by blast
  next
    case False
    from X have Xd: "X \<in> set (items d)" "\<not> truthy (archived X)" by auto
    have "item_id X \<notin> ?P"
      using inj [OF Xd(1) M2] False unfolding P by auto
    moreover have "item_id X \<in> ?C \<longleftrightarrow> linked X M2"
      using inC [OF Xd(1) False Xd(2)] .
    moreover have "linked X M2 \<longleftrightarrow> X = M1 \<and> linked M1 M2"
      using others Xd(1) False by auto
    ultimately show ?thesis using False by simp
  qed
  have fi2: "getFilteredItems st = filter (\<lambda>i. i = M2 \<or> (i = M1 \<and> linked M1 M2)) (items d)"
  proof -
    have "getFilteredItems st = filter (\<lambda>i. i = M2 \<or> (i = M1 \<and> linked M1 M2)) ?na"
      unfolding fi using keep by (intro filter_cong) auto
    also have "\<dots> = filter (\<lambda>i. i = M2 \<or> (i = M1 \<and> linked M1 M2)) (items d)"
      using a1 a2 by (auto simp: filter_filter intro!: filter_cong)
    finally show ?thesis .
  qed
  have lanes: "getFilteredSwimlanes st =
      sort_key swimlane_order
        (filter (\<lambda>s. swimlane_id s \<in> set (map swimlaneId (getFilteredItems st))) (swimlanes d))"
    using d fs by (simp add: getFilteredSwimlanes_def Let_def)
  show ?thesis
  proof (intro conjI impI)
    assume l: "linked M1 M2"
    show i1: "getFilteredItems st = filter (\<lambda>i. i = M1 \<or> i = M2) (items d)"
      unfolding fi2 using l by (auto intro!: filter_cong)
    show i2: "set (getFilteredItems st) = {M1, M2}"
      unfolding i1 using M1 M2 by auto
    have "filter (\<lambda>s. swimlane_id s \<in> set (map swimlaneId (getFilteredItems st))) (swimlanes d)
            = filter (\<lambda>s. s = S1 \<or> s = S2) (swimlanes d)"
      using injS S1 S2 m1 m2 by (intro filter_cong) (auto simp: i2)
    then show l1: "getFilteredSwimlanes st
              = sort_key swimlane_order (filter (\<lambda>s. s = S1 \<or> s = S2) (swimlanes d))"
      using lanes by simp
    show "set (getFilteredSwimlanes st) = {S1, S2}"
      unfolding l1 using S1 S2 by auto
    show "sorted (map swimlane_order (getFilteredSwimlanes st))"
      unfolding l1 by simp
  next
    assume l: "\<not> linked M1 M2"
    show i1: "getFilteredItems st = filter (\<lambda>i. i = M2) (items d)"
      unfolding fi2 using l by (auto intro!: filter_cong)
    show i2: "set (getFilteredItems st) = {M2}"
      unfolding i1 using M2 by auto
    have f: "filter (\<lambda>s. swimlane_id s \<in> set (map swimlaneId (getFilteredItems st))) (swimlanes d)
            = filter (\<lambda>s. s = S2) (swimlanes d)"
      using injS S2 m2 by (intro filter_cong) (auto simp: i2)
    have one: "filter (\<lambda>s. s = S2) (swimlanes d) = [S2]"
      using usid S2 by (intro filter_eq_single) (simp_all add: distinct_map)
    show l1: "getFilteredSwimlanes st = filter (\<lambda>s. s = S2) (swimlanes d)"
      using lanes f one by simp
    show "set (getFilteredSwimlanes st) = {S2}"
      unfolding l1 using S2 by auto
  qed
qed

theorem cross_swimlane_filter_witness:
  "getFilteredItems crossLaneStore = [itemM1, itemM2]
   \<and> getFilteredSwimlanes crossLaneStore = [laneS1, laneS2]
   \<and> getFilteredItems unlinkedLaneStore = [exampleItem ''m2'' ''s2'']
   \<and> getFilteredSwimlanes unlinkedLaneStore = [laneS2]"
  using cross_swimlane_filter [of crossLaneStore crossLaneData laneS2 itemM1 itemM2 laneS1]
    cross_swimlane_filter [of unlinkedLaneStore unlinkedLaneData laneS2 itemM1
      "exampleItem ''m2'' ''s2''" laneS1]
  by (simp add: crossLaneStore_def crossLaneData_def unlinkedLaneStore_def unlinkedLaneData_def
      laneS1_def laneS2_def laneS3_def itemM1_def itemM2_def itemM3_def exampleItem_def
      truthy_def orEmpty_def linked_def)


end
